theory Spec2Isabelle
  imports Main "HOL-Library.Sublist"
begin

section \<open>The program and how it is embedded\<close>

text \<open>
  The program is one script, \<^verbatim>\<open>server.py\<close>:
  \<^verbatim>\<open>
  PORT = 9999

  class CrossOriginIsolatedHandler(http.server.SimpleHTTPRequestHandler):
      def end_headers(self):
          self.send_header("Cross-Origin-Opener-Policy", "same-origin")
          self.send_header("Cross-Origin-Embedder-Policy", "require-corp")
          super().end_headers()

  with socketserver.TCPServer(("", PORT), CrossOriginIsolatedHandler) as httpd:
      print(f"Serving at http://localhost:{PORT}")
      print("Cross-Origin Isolation headers are enabled.")
      httpd.serve_forever()
  \<close>
  The class overrides one method of the handler class of Python's standard module
  \<^verbatim>\<open>http.server\<close>, and every other method it runs is inherited from
  there; the server object is the standard \<^verbatim>\<open>socketserver.TCPServer\<close>.
  What the script does can only be said over the methods it calls, so the inherited
  methods it reaches are embedded too, each from the text of the standard library
  (CPython 3.11: \<^verbatim>\<open>http/server.py\<close>, \<^verbatim>\<open>socketserver.py\<close>,
  \<^verbatim>\<open>posixpath.py\<close>), and each is marked as inherited. What the library
  takes from the operating system or only formats as text (the clock, the file system,
  the outcome of \<^verbatim>\<open>bind\<close>, the HTML of an error page) is a parameter, a field
  of the records \<open>env\<close> and \<open>os_env\<close>.

  A Python \<^verbatim>\<open>str\<close> is a \<^typ>\<open>string\<close> here: one \<^typ>\<open>char\<close> is one
  Latin-1 character, which is exact for the request line (the library decodes it with
  \<^verbatim>\<open>iso-8859-1\<close>) and for everything that is encoded with
  \<^verbatim>\<open>latin-1\<close> before it is sent. Code points above 255, which only
  percent-decoding can produce, are outside this type. Bytes are a \<^typ>\<open>string\<close>
  as well.
\<close>

type_synonym bytes = string

datatype py_exception =
    AttributeError
  | OSError string
  | ValueError string
  | UnicodeEncodeError
  | KeyboardInterrupt
  | SystemExit nat

text \<open>
  \<^verbatim>\<open>except Exception\<close> catches the first four; \<^verbatim>\<open>KeyboardInterrupt\<close>
  and \<^verbatim>\<open>SystemExit\<close> derive from \<^verbatim>\<open>BaseException\<close> only.
  \<^verbatim>\<open>except OSError\<close> catches \<^verbatim>\<open>OSError\<close> alone:
  \<^verbatim>\<open>ValueError\<close> and its subclass \<^verbatim>\<open>UnicodeEncodeError\<close> pass it.
\<close>

fun is_Exception :: "py_exception \<Rightarrow> bool" where
  "is_Exception AttributeError = True"
| "is_Exception (OSError errno) = True"
| "is_Exception (ValueError message) = True"
| "is_Exception UnicodeEncodeError = True"
| "is_Exception KeyboardInterrupt = False"
| "is_Exception (SystemExit code) = False"

definition bind_exc :: "'e + 'a \<Rightarrow> ('a \<Rightarrow> 'e + 'b) \<Rightarrow> 'e + 'b" where
  "bind_exc m f = (case m of Inl e \<Rightarrow> Inl e | Inr x \<Rightarrow> f x)"

section \<open>Strings and paths\<close>

definition CRLF :: bytes where
  "CRLF = [CHR 0x0D, CHR 0x0A]"

text \<open>
  \<^verbatim>\<open>str.lower()\<close> on Latin-1 text: the letters A to Z and the accented capitals
  0xC0 to 0xDE (the multiplication sign 0xD7 apart) move up by 32.
\<close>

definition lower_char :: "char \<Rightarrow> char" where
  "lower_char c =
     (let n = (of_char c :: nat)
      in if (65 \<le> n \<and> n \<le> 90) \<or> (192 \<le> n \<and> n \<le> 222 \<and> n \<noteq> 215)
         then char_of (n + 32) else c)"

definition lower :: "string \<Rightarrow> string" where
  "lower s = map lower_char s"

text \<open>\<^verbatim>\<open>"%d" % n\<close> and \<^verbatim>\<open>str(n)\<close> for a natural number.\<close>

definition digit_char :: "nat \<Rightarrow> char" where
  "digit_char d = ''0123456789'' ! d"

fun str_nat :: "nat \<Rightarrow> string" where
  "str_nat n = (if n < 10 then [digit_char n] else str_nat (n div 10) @ [digit_char (n mod 10)])"

definition startswith :: "string \<Rightarrow> string \<Rightarrow> bool" where
  "startswith s p = (take (length p) s = p)"

definition endswith :: "string \<Rightarrow> string \<Rightarrow> bool" where
  "endswith s p = (length p \<le> length s \<and> drop (length s - length p) s = p)"

text \<open>
  \<^verbatim>\<open>str.isspace()\<close> on one Latin-1 character, \<^verbatim>\<open>s.rstrip()\<close>,
  \<^verbatim>\<open>s.rstrip(chars)\<close>, \<^verbatim>\<open>s.lstrip(chars)\<close> and \<^verbatim>\<open>s.split()\<close>
  (words between runs of white space).
\<close>

definition isspace :: "char \<Rightarrow> bool" where
  "isspace c =
     (let n = (of_char c :: nat)
      in (9 \<le> n \<and> n \<le> 13) \<or> (28 \<le> n \<and> n \<le> 32) \<or> n = 133 \<or> n = 160)"

definition rstrip :: "string \<Rightarrow> string" where
  "rstrip s = rev (dropWhile isspace (rev s))"

definition rstrip_chars :: "string \<Rightarrow> string \<Rightarrow> string" where
  "rstrip_chars chars s = rev (dropWhile (\<lambda>c. c \<in> set chars) (rev s))"

definition lstrip_chars :: "string \<Rightarrow> string \<Rightarrow> string" where
  "lstrip_chars chars s = dropWhile (\<lambda>c. c \<in> set chars) s"

fun split_ws_from :: "string \<Rightarrow> string \<Rightarrow> string list" where
  "split_ws_from cur [] = (if cur = [] then [] else [rev cur])"
| "split_ws_from cur (x # xs) =
     (if isspace x
      then (if cur = [] then split_ws_from [] xs else rev cur # split_ws_from [] xs)
      else split_ws_from (x # cur) xs)"

definition split_ws :: "string \<Rightarrow> string list" where
  "split_ws s = split_ws_from [] s"

text \<open>
  \<^verbatim>\<open>s.split(c)\<close> for a separator of one character (the result is never empty),
  \<^verbatim>\<open>s.split(c, 1)[0]\<close>, and \<^verbatim>\<open>c.join(words)\<close>.
\<close>

fun split_on :: "char \<Rightarrow> string \<Rightarrow> string list" where
  "split_on c [] = [[]]"
| "split_on c (x # xs) =
     (if x = c then [] # split_on c xs
      else (case split_on c xs of [] \<Rightarrow> [[x]] | w # ws \<Rightarrow> (x # w) # ws))"

definition before_first :: "char \<Rightarrow> string \<Rightarrow> string" where
  "before_first c s = takeWhile (\<lambda>x. x \<noteq> c) s"

fun sep_join :: "string \<Rightarrow> string list \<Rightarrow> string" where
  "sep_join sep [] = []"
| "sep_join sep [w] = w"
| "sep_join sep (w # v # ws) = w @ sep @ sep_join sep (v # ws)"

text \<open>
  \<^verbatim>\<open>posixpath.normpath\<close>:
  \<^verbatim>\<open>
  def normpath(path):
      if path == empty:
          return dot
      initial_slashes = path.startswith(sep)
      if (initial_slashes and
          path.startswith(sep*2) and not path.startswith(sep*3)):
          initial_slashes = 2
      comps = path.split(sep)
      new_comps = []
      for comp in comps:
          if comp in (empty, dot):
              continue
          if (comp != dotdot or (not initial_slashes and not new_comps) or
               (new_comps and new_comps[-1] == dotdot)):
              new_comps.append(comp)
          elif new_comps:
              new_comps.pop()
      comps = new_comps
      path = sep.join(comps)
      if initial_slashes:
          path = sep*initial_slashes + path
      return path or dot
  \<close>
\<close>

fun normpath_comps :: "bool \<Rightarrow> string list \<Rightarrow> string list \<Rightarrow> string list" where
  "normpath_comps initial_slashes new_comps [] = new_comps"
| "normpath_comps initial_slashes new_comps (cmp # comps) =
     (if cmp = [] \<or> cmp = ''.'' then normpath_comps initial_slashes new_comps comps
      else if cmp \<noteq> ''..'' \<or> (\<not> initial_slashes \<and> new_comps = [])
              \<or> (new_comps \<noteq> [] \<and> last new_comps = ''..'')
      then normpath_comps initial_slashes (new_comps @ [cmp]) comps
      else if new_comps \<noteq> [] then normpath_comps initial_slashes (butlast new_comps) comps
      else normpath_comps initial_slashes new_comps comps)"

definition normpath :: "string \<Rightarrow> string" where
  "normpath p =
     (if p = [] then ''.''
      else
        let initial_slashes =
              (if startswith p ''/''
               then (if startswith p ''//'' \<and> \<not> startswith p ''///'' then 2 else 1)
               else (0::nat));
            comps = normpath_comps (initial_slashes \<noteq> 0) [] (split_on CHR ''/'' p);
            joined = sep_join ''/'' comps;
            res = (if initial_slashes \<noteq> 0 then replicate initial_slashes CHR ''/'' @ joined
                   else joined)
        in if res = [] then ''.'' else res)"

text \<open>
  \<^verbatim>\<open>posixpath.dirname\<close> and \<^verbatim>\<open>posixpath.join\<close> (of two arguments):
  \<^verbatim>\<open>
  def dirname(p):
      i = p.rfind(sep) + 1
      head = p[:i]
      if head and head != sep*len(head):
          head = head.rstrip(sep)
      return head

  def join(a, *p):
      path = a
      for b in p:
          if b.startswith(sep):
              path = b
          elif not path or path.endswith(sep):
              path += b
          else:
              path += sep + b
      return path
  \<close>
\<close>

definition dirname :: "string \<Rightarrow> string" where
  "dirname p =
     (let head = rev (dropWhile (\<lambda>c. c \<noteq> CHR ''/'') (rev p))
      in if head \<noteq> [] \<and> head \<noteq> replicate (length head) CHR ''/''
         then rstrip_chars ''/'' head else head)"

definition join :: "string \<Rightarrow> string \<Rightarrow> string" where
  "join a b =
     (if startswith b ''/'' then b
      else if a = [] \<or> endswith a ''/'' then a @ b
      else a @ ''/'' @ b)"

text \<open>
  \<^verbatim>\<open>urllib.parse.unquote\<close> returns a string without a percent sign as it is;
  the decoding of the escapes is the parameter \<open>pct\<close>:
  \<^verbatim>\<open>
  def unquote(string, encoding='utf-8', errors='replace'):
      if '%' not in string:
          return string
      ...
  \<close>
\<close>

definition unquote :: "(string \<Rightarrow> string) \<Rightarrow> string \<Rightarrow> string" where
  "unquote pct s = (if CHR ''%'' \<notin> set s then s else pct s)"

text \<open>
  Inherited, \<^verbatim>\<open>SimpleHTTPRequestHandler.translate_path\<close>:
  \<^verbatim>\<open>
  def translate_path(self, path):
      path = path.split('?',1)[0]
      path = path.split('#',1)[0]
      trailing_slash = path.rstrip().endswith('/')
      try:
          path = urllib.parse.unquote(path, errors='surrogatepass')
      except UnicodeDecodeError:
          path = urllib.parse.unquote(path)
      path = posixpath.normpath(path)
      words = path.split('/')
      words = filter(None, words)
      path = self.directory
      for word in words:
          if os.path.dirname(word) or word in (os.curdir, os.pardir):
              continue
          path = os.path.join(path, word)
      if trailing_slash:
          path += '/'
      return path
  \<close>
  Both calls of \<^verbatim>\<open>unquote\<close> return the string itself when it has no percent
  sign, so \<open>pct\<close> stands for the two together.
\<close>

fun translate_words :: "string \<Rightarrow> string list \<Rightarrow> string" where
  "translate_words p [] = p"
| "translate_words p (word # words) =
     (if dirname word \<noteq> [] \<or> word = ''.'' \<or> word = ''..''
      then translate_words p words
      else translate_words (join p word) words)"

definition translate_path :: "(string \<Rightarrow> string) \<Rightarrow> string \<Rightarrow> string \<Rightarrow> string" where
  "translate_path pct directory p =
     (let p1 = before_first CHR ''?'' p;
          p2 = before_first CHR ''#'' p1;
          trailing_slash = endswith (rstrip p2) ''/'';
          p3 = unquote pct p2;
          p4 = normpath p3;
          words = filter (\<lambda>w. w \<noteq> []) (split_on CHR ''/'' p4);
          p5 = translate_words directory words
      in if trailing_slash then p5 @ ''/'' else p5)"

text \<open>
  What a path names, for the operating system: the components of the path with
  \<^verbatim>\<open>.\<close> and empty components dropped and each \<^verbatim>\<open>..\<close> taking the one
  before it away (POSIX pathname resolution, symbolic links apart). A path is inside a
  directory when what the directory names is a prefix of what the path names.
\<close>

fun resolve_comps :: "string list \<Rightarrow> string list \<Rightarrow> string list" where
  "resolve_comps acc [] = acc"
| "resolve_comps acc (c # cs) =
     (if c = [] \<or> c = ''.'' then resolve_comps acc cs
      else if c = ''..'' then resolve_comps (butlast acc) cs
      else resolve_comps (acc @ [c]) cs)"

definition resolve :: "string \<Rightarrow> string list" where
  "resolve p = resolve_comps [] (split_on CHR ''/'' p)"

definition inside :: "string \<Rightarrow> string \<Rightarrow> bool" where
  "inside root p = prefix (resolve root) (resolve p)"

text \<open>
  A simple name: not empty, not \<^verbatim>\<open>.\<close>, not \<^verbatim>\<open>..\<close>, without a slash.
\<close>

definition simple :: "string \<Rightarrow> bool" where
  "simple w = (w \<noteq> [] \<and> w \<noteq> ''.'' \<and> w \<noteq> ''..'' \<and> CHR ''/'' \<notin> set w)"


section \<open>The request handler\<close>

subsection \<open>State and environment\<close>

datatype log_entry = LogRequest nat | LogError nat string

text \<open>
  The attributes of a handler object that the methods below read or assign.
  \<open>headers_buffer\<close> is \<^verbatim>\<open>self._headers_buffer\<close>: the attribute does not
  exist until the first line is buffered (the library tests \<^verbatim>\<open>hasattr\<close>),
  which is \<open>None\<close>. \<open>wfile\<close> is everything written to the connection so far:
  the handler's \<^verbatim>\<open>wfile\<close> is unbuffered (\<^verbatim>\<open>wbufsize = 0\<close>), so a write
  is a transmission. \<open>headers\<close> are the headers of the request. \<open>log\<close> is what
  \<^verbatim>\<open>log_message\<close> has written to the standard error stream.
\<close>

record handler =
  request_version :: string
  command :: "string option"
  path :: string
  requestline :: string
  headers :: "(string \<times> string) list"
  directory :: string
  headers_buffer :: "bytes list option"
  wfile :: bytes
  close_connection :: bool
  log :: "log_entry list"

record opened_file =
  content :: bytes
  st_mtime :: int

text \<open>
  How a call into the file system fails: with \<^verbatim>\<open>OSError\<close> and its error
  number (no such file, no permission), or with \<^verbatim>\<open>ValueError\<close> and its
  message, which \<^verbatim>\<open>open\<close> and \<^verbatim>\<open>os.listdir\<close> raise for a path that
  holds a null byte before they reach the operating system.
\<close>

datatype fs_error = FsOSError string | FsValueError string

text \<open>
  What the library takes from outside or only formats: the table
  \<^verbatim>\<open>responses\<close> (status code to short and long phrase),
  \<^verbatim>\<open>version_string()\<close>, \<^verbatim>\<open>date_time_string(timestamp)\<close> (of the
  clock when there is no argument), the error page
  (\<^verbatim>\<open>error_message_format\<close> filled in and encoded), \<^verbatim>\<open>repr\<close> of a
  string, percent-decoding, \<^verbatim>\<open>guess_type\<close>, the path part of
  \<^verbatim>\<open>urlsplit\<close> (\<open>Inl\<close> is the message of the \<^verbatim>\<open>ValueError\<close>
  that \<^verbatim>\<open>urlsplit\<close> raises for an ill-formed network location), the redirect
  address with the slash added, the time an \<^verbatim>\<open>If-Modified-Since\<close> value names
  (\<open>None\<close> when it is ill-formed or not in UTC), the encoded HTML of a directory
  listing (\<open>None\<close> is the \<^verbatim>\<open>UnicodeEncodeError\<close> that
  \<^verbatim>\<open>encode(enc, 'surrogateescape')\<close> raises for a lone surrogate that the
  decoding of the request path has produced), and the file system:
  \<^verbatim>\<open>os.getcwd\<close>, \<^verbatim>\<open>os.path.isdir\<close>, \<^verbatim>\<open>os.path.isfile\<close>
  (both return \<^verbatim>\<open>False\<close> where \<^verbatim>\<open>os.stat\<close> raises
  \<^verbatim>\<open>OSError\<close> or \<^verbatim>\<open>ValueError\<close>), \<^verbatim>\<open>open(path, 'rb')\<close>
  with \<^verbatim>\<open>os.fstat\<close>, and \<^verbatim>\<open>os.listdir\<close>.
\<close>

record env =
  responses :: "nat \<Rightarrow> (string \<times> string) option"
  version_string :: string
  date_time_string :: "int option \<Rightarrow> string"
  error_page :: "nat \<Rightarrow> string \<Rightarrow> string \<Rightarrow> bytes"
  repr :: "string \<Rightarrow> string"
  pct :: "string \<Rightarrow> string"
  guess_type :: "string \<Rightarrow> string"
  urlsplit_path :: "string \<Rightarrow> string + string"
  redirect_url :: "string \<Rightarrow> string"
  parsedate :: "string \<Rightarrow> int option"
  render_listing :: "string \<Rightarrow> string \<Rightarrow> string list \<Rightarrow> bytes option"
  fs_encoding :: string
  getcwd :: string
  fs_isdir :: "string \<Rightarrow> bool"
  fs_isfile :: "string \<Rightarrow> bool"
  fs_open :: "string \<Rightarrow> fs_error + opened_file"
  fs_listdir :: "string \<Rightarrow> fs_error + string list"

definition protocol_version :: string where
  "protocol_version = ''HTTP/1.0''"

definition default_request_version :: string where
  "default_request_version = ''HTTP/0.9''"

definition error_content_type :: string where
  "error_content_type = ''text/html;charset=utf-8''"

subsection \<open>Buffered response headers\<close>

definition buffered :: "handler \<Rightarrow> bytes list" where
  "buffered self = (case headers_buffer self of None \<Rightarrow> [] | Some b \<Rightarrow> b)"

text \<open>
  Inherited, \<^verbatim>\<open>BaseHTTPRequestHandler.send_header\<close>:
  \<^verbatim>\<open>
  def send_header(self, keyword, value):
      if self.request_version != 'HTTP/0.9':
          if not hasattr(self, '_headers_buffer'):
              self._headers_buffer = []
          self._headers_buffer.append(
              ("%s: %s\r\n" % (keyword, value)).encode('latin-1', 'strict'))

      if keyword.lower() == 'connection':
          if value.lower() == 'close':
              self.close_connection = True
          elif value.lower() == 'keep-alive':
              self.close_connection = False
  \<close>
\<close>

definition header_line :: "string \<Rightarrow> string \<Rightarrow> bytes" where
  "header_line keyword val = keyword @ '': '' @ val @ CRLF"

definition send_header :: "string \<Rightarrow> string \<Rightarrow> handler \<Rightarrow> handler" where
  "send_header keyword val self =
     (let self1 =
            (if request_version self \<noteq> ''HTTP/0.9''
             then self\<lparr>headers_buffer := Some (buffered self @ [header_line keyword val])\<rparr>
             else self)
      in if lower keyword = ''connection''
         then (if lower val = ''close'' then self1\<lparr>close_connection := True\<rparr>
               else if lower val = ''keep-alive'' then self1\<lparr>close_connection := False\<rparr>
               else self1)
         else self1)"

text \<open>
  Inherited, \<^verbatim>\<open>BaseHTTPRequestHandler.flush_headers\<close>:
  \<^verbatim>\<open>
  def flush_headers(self):
      if hasattr(self, '_headers_buffer'):
          self.wfile.write(b"".join(self._headers_buffer))
          self._headers_buffer = []
  \<close>
\<close>

definition flush_headers :: "handler \<Rightarrow> handler" where
  "flush_headers self =
     (case headers_buffer self of
        None \<Rightarrow> self
      | Some b \<Rightarrow> self\<lparr>wfile := wfile self @ concat b, headers_buffer := Some []\<rparr>)"

text \<open>
  Inherited, \<^verbatim>\<open>BaseHTTPRequestHandler.end_headers\<close>, the method the script
  overrides and reaches through \<^verbatim>\<open>super()\<close>:
  \<^verbatim>\<open>
  def end_headers(self):
      if self.request_version != 'HTTP/0.9':
          self._headers_buffer.append(b"\r\n")
          self.flush_headers()
  \<close>
  The attribute is read without a \<^verbatim>\<open>hasattr\<close> test: on a handler that has
  buffered nothing yet Python raises \<^verbatim>\<open>AttributeError\<close>.
\<close>

definition super_end_headers :: "handler \<Rightarrow> py_exception + handler" where
  "super_end_headers self =
     (if request_version self \<noteq> ''HTTP/0.9''
      then (case headers_buffer self of
              None \<Rightarrow> Inl AttributeError
            | Some b \<Rightarrow> Inr (flush_headers (self\<lparr>headers_buffer := Some (b @ [CRLF])\<rparr>)))
      else Inr self)"

subsection \<open>The override of the script\<close>

text \<open>
  \<^verbatim>\<open>CrossOriginIsolatedHandler.end_headers\<close>, lines 7 to 10 of
  \<^verbatim>\<open>server.py\<close>. Neither call of \<open>send_header\<close> can raise here: the two
  strings are ASCII, so the \<^verbatim>\<open>latin-1\<close> encoding succeeds.
\<close>

definition end_headers :: "handler \<Rightarrow> py_exception + handler" where
  "end_headers self =
     (let self1 = send_header ''Cross-Origin-Opener-Policy'' ''same-origin'' self;
          self2 = send_header ''Cross-Origin-Embedder-Policy'' ''require-corp'' self1
      in super_end_headers self2)"

text \<open>
  The handler as it is at the point where the override hands over to the inherited
  method: the state after lines 8 and 9, before line 10.
\<close>

definition at_finalize :: "handler \<Rightarrow> handler" where
  "at_finalize self =
     send_header ''Cross-Origin-Embedder-Policy'' ''require-corp''
       (send_header ''Cross-Origin-Opener-Policy'' ''same-origin'' self)"

text \<open>The two header lines as they are buffered and sent.\<close>

definition COOP :: bytes where
  "COOP = header_line ''Cross-Origin-Opener-Policy'' ''same-origin''"

definition COEP :: bytes where
  "COEP = header_line ''Cross-Origin-Embedder-Policy'' ''require-corp''"

subsection \<open>Status line, standard headers, error responses\<close>

text \<open>
  Inherited, \<^verbatim>\<open>BaseHTTPRequestHandler.send_response_only\<close>:
  \<^verbatim>\<open>
  def send_response_only(self, code, message=None):
      if self.request_version != 'HTTP/0.9':
          if message is None:
              if code in self.responses:
                  message = self.responses[code][0]
              else:
                  message = ''
          if not hasattr(self, '_headers_buffer'):
              self._headers_buffer = []
          self._headers_buffer.append(("%s %d %s\r\n" %
                  (self.protocol_version, code, message)).encode(
                      'latin-1', 'strict'))
  \<close>
\<close>

definition status_line :: "env \<Rightarrow> nat \<Rightarrow> string option \<Rightarrow> bytes" where
  "status_line E code message =
     (let msg = (case message of
                   Some m \<Rightarrow> m
                 | None \<Rightarrow> (case responses E code of Some (short, long) \<Rightarrow> short | None \<Rightarrow> ''''))
      in protocol_version @ '' '' @ str_nat code @ '' '' @ msg @ CRLF)"

definition send_response_only :: "env \<Rightarrow> nat \<Rightarrow> string option \<Rightarrow> handler \<Rightarrow> handler" where
  "send_response_only E code message self =
     (if request_version self \<noteq> ''HTTP/0.9''
      then self\<lparr>headers_buffer := Some (buffered self @ [status_line E code message])\<rparr>
      else self)"

text \<open>
  Any run of \<open>send_header\<close> calls, as the delegate makes them between the status
  line and the end of the headers.
\<close>

definition send_headers :: "(string \<times> string) list \<Rightarrow> handler \<Rightarrow> handler" where
  "send_headers hs self = fold (\<lambda>(k, v). send_header k v) hs self"

text \<open>
  Inherited, \<^verbatim>\<open>log_request\<close>, \<^verbatim>\<open>log_error\<close> (both write one line to
  the standard error stream) and \<^verbatim>\<open>send_response\<close>:
  \<^verbatim>\<open>
  def send_response(self, code, message=None):
      self.log_request(code)
      self.send_response_only(code, message)
      self.send_header('Server', self.version_string())
      self.send_header('Date', self.date_time_string())
  \<close>
\<close>

definition log_request :: "nat \<Rightarrow> handler \<Rightarrow> handler" where
  "log_request code self = self\<lparr>log := log self @ [LogRequest code]\<rparr>"

definition log_error :: "nat \<Rightarrow> string \<Rightarrow> handler \<Rightarrow> handler" where
  "log_error code message self = self\<lparr>log := log self @ [LogError code message]\<rparr>"

definition send_response :: "env \<Rightarrow> nat \<Rightarrow> string option \<Rightarrow> handler \<Rightarrow> handler" where
  "send_response E code message self =
     (let s1 = log_request code self;
          s2 = send_response_only E code message s1;
          s3 = send_header ''Server'' (version_string E) s2
      in send_header ''Date'' (date_time_string E None) s3)"

text \<open>
  Inherited, \<^verbatim>\<open>BaseHTTPRequestHandler.send_error\<close>:
  \<^verbatim>\<open>
  def send_error(self, code, message=None, explain=None):
      try:
          shortmsg, longmsg = self.responses[code]
      except KeyError:
          shortmsg, longmsg = '???', '???'
      if message is None:
          message = shortmsg
      if explain is None:
          explain = longmsg
      self.log_error("code %d, message %s", code, message)
      self.send_response(code, message)
      self.send_header('Connection', 'close')
      body = None
      if (code >= 200 and
          code not in (HTTPStatus.NO_CONTENT,
                       HTTPStatus.RESET_CONTENT,
                       HTTPStatus.NOT_MODIFIED)):
          content = (self.error_message_format % {
              'code': code,
              'message': html.escape(message, quote=False),
              'explain': html.escape(explain, quote=False)
          })
          body = content.encode('UTF-8', 'replace')
          self.send_header("Content-Type", self.error_content_type)
          self.send_header('Content-Length', str(len(body)))
      self.end_headers()

      if self.command != 'HEAD' and body:
          self.wfile.write(body)
  \<close>
\<close>

definition send_error ::
  "env \<Rightarrow> nat \<Rightarrow> string option \<Rightarrow> string option \<Rightarrow> handler \<Rightarrow> py_exception + handler" where
  "send_error E code message explain self =
     (let (shortmsg, longmsg) =
            (case responses E code of Some r \<Rightarrow> r | None \<Rightarrow> (''???'', ''???''));
          message1 = (case message of None \<Rightarrow> shortmsg | Some m \<Rightarrow> m);
          explain1 = (case explain of None \<Rightarrow> longmsg | Some x \<Rightarrow> x);
          s1 = log_error code message1 self;
          s2 = send_response E code (Some message1) s1;
          s3 = send_header ''Connection'' ''close'' s2;
          has_body = (code \<ge> 200 \<and> code \<noteq> 204 \<and> code \<noteq> 205 \<and> code \<noteq> 304);
          body = error_page E code message1 explain1;
          s4 = (if has_body
                then send_header ''Content-Length'' (str_nat (length body))
                       (send_header ''Content-Type'' error_content_type s3)
                else s3)
      in bind_exc (end_headers s4)
           (\<lambda>s5. Inr (if command s5 \<noteq> Some ''HEAD'' \<and> has_body \<and> body \<noteq> []
                       then s5\<lparr>wfile := wfile s5 @ body\<rparr> else s5)))"

subsection \<open>Parsing a request\<close>

text \<open>
  What the handler reads from the connection for one request: the request line as
  \<^verbatim>\<open>rfile.readline(65537)\<close> returns it (empty at the end of the input),
  and what \<^verbatim>\<open>http.client.parse_headers\<close> makes of the lines after it.
\<close>

datatype header_parse =
    Headers "(string \<times> string) list"
  | LineTooLong string
  | TooManyHeaders string

record request =
  raw_requestline :: bytes
  header_section :: header_parse

text \<open>\<^verbatim>\<open>headers.get(name)\<close>: the first header of that name, whatever its case.\<close>

definition headers_get :: "(string \<times> string) list \<Rightarrow> string \<Rightarrow> string option" where
  "headers_get hs name = map_of (map (\<lambda>(k, v). (lower k, v)) hs) (lower name)"

text \<open>Python's order on strings, \<^verbatim>\<open>a >= b\<close>: by code point, a prefix first.\<close>

fun str_le :: "string \<Rightarrow> string \<Rightarrow> bool" where
  "str_le [] ys = True"
| "str_le (x # xs) [] = False"
| "str_le (x # xs) (y # ys) =
     ((of_char x :: nat) < of_char y \<or> (x = y \<and> str_le xs ys))"

definition str_ge :: "string \<Rightarrow> string \<Rightarrow> bool" where
  "str_ge a b = str_le b a"

text \<open>
  \<^verbatim>\<open>str.isdigit()\<close> holds of a Latin-1 string that is not empty and has only
  the digits 0 to 9 and the superscripts 0xB2, 0xB3, 0xB9; \<^verbatim>\<open>int()\<close> takes
  the digits 0 to 9 only (\<open>None\<close> is \<^verbatim>\<open>ValueError\<close>).
\<close>

definition isdigit :: "string \<Rightarrow> bool" where
  "isdigit s =
     (s \<noteq> [] \<and> list_all (\<lambda>c. let n = (of_char c :: nat)
                               in (48 \<le> n \<and> n \<le> 57) \<or> n = 178 \<or> n = 179 \<or> n = 185) s)"

definition int_of_str :: "string \<Rightarrow> nat option" where
  "int_of_str s =
     (if s \<noteq> [] \<and> list_all (\<lambda>c. 48 \<le> (of_char c :: nat) \<and> (of_char c :: nat) \<le> 57) s
      then Some (foldl (\<lambda>acc c. 10 * acc + (of_char c - 48)) 0 s)
      else None)"

text \<open>
  The \<^verbatim>\<open>try\<close> block of \<^verbatim>\<open>parse_request\<close>; \<open>None\<close> is its
  \<^verbatim>\<open>ValueError\<close>:
  \<^verbatim>\<open>
  if not version.startswith('HTTP/'):
      raise ValueError
  base_version_number = version.split('/', 1)[1]
  version_number = base_version_number.split(".")
  if len(version_number) != 2:
      raise ValueError
  if any(not component.isdigit() for component in version_number):
      raise ValueError("non digit in http version")
  if any(len(component) > 10 for component in version_number):
      raise ValueError("unreasonable length http version")
  version_number = int(version_number[0]), int(version_number[1])
  \<close>
\<close>

definition parse_version :: "string \<Rightarrow> (nat \<times> nat) option" where
  "parse_version version =
     (if \<not> startswith version ''HTTP/'' then None
      else
        let base_version_number = drop 5 version;
            version_number = split_on CHR ''.'' base_version_number
        in if length version_number \<noteq> 2 then None
           else if list_ex (\<lambda>component. \<not> isdigit component) version_number then None
           else if list_ex (\<lambda>component. length component > 10) version_number then None
           else (case (int_of_str (version_number ! 0), int_of_str (version_number ! 1)) of
                   (Some major, Some minor) \<Rightarrow> Some (major, minor)
                 | _ \<Rightarrow> None))"

text \<open>
  Inherited, \<^verbatim>\<open>handle_expect_100\<close>:
  \<^verbatim>\<open>
  self.send_response_only(HTTPStatus.CONTINUE)
  self.end_headers()
  return True
  \<close>
\<close>

definition handle_expect_100 :: "env \<Rightarrow> handler \<Rightarrow> py_exception + handler" where
  "handle_expect_100 E self = end_headers (send_response_only E 100 None self)"

text \<open>
  Inherited, \<^verbatim>\<open>BaseHTTPRequestHandler.parse_request\<close>, in three parts. Each
  returns the handler with the value the method returns (\<open>False\<close> after an error
  response). The last part, from the parsing of the headers on:
  \<^verbatim>\<open>
  try:
      self.headers = http.client.parse_headers(self.rfile, _class=self.MessageClass)
  except http.client.LineTooLong as err:
      self.send_error(HTTPStatus.REQUEST_HEADER_FIELDS_TOO_LARGE, "Line too long", str(err))
      return False
  except http.client.HTTPException as err:
      self.send_error(HTTPStatus.REQUEST_HEADER_FIELDS_TOO_LARGE, "Too many headers", str(err))
      return False

  conntype = self.headers.get('Connection', "")
  if conntype.lower() == 'close':
      self.close_connection = True
  elif (conntype.lower() == 'keep-alive' and
        self.protocol_version >= "HTTP/1.1"):
      self.close_connection = False
  expect = self.headers.get('Expect', "")
  if (expect.lower() == "100-continue" and
          self.protocol_version >= "HTTP/1.1" and
          self.request_version >= "HTTP/1.1"):
      if not self.handle_expect_100():
          return False
  return True
  \<close>
\<close>

definition failed :: "py_exception + handler \<Rightarrow> py_exception + (handler \<times> bool)" where
  "failed r = bind_exc r (\<lambda>s. Inr (s, False))"

definition parse_request_headers ::
  "env \<Rightarrow> request \<Rightarrow> handler \<Rightarrow> py_exception + (handler \<times> bool)" where
  "parse_request_headers E req self =
     (case header_section req of
        LineTooLong err \<Rightarrow> failed (send_error E 431 (Some ''Line too long'') (Some err) self)
      | TooManyHeaders err \<Rightarrow> failed (send_error E 431 (Some ''Too many headers'') (Some err) self)
      | Headers hs \<Rightarrow>
          let s1 = self\<lparr>headers := hs\<rparr>;
              conntype = (case headers_get hs ''Connection'' of None \<Rightarrow> [] | Some v \<Rightarrow> v);
              s2 = (if lower conntype = ''close'' then s1\<lparr>close_connection := True\<rparr>
                    else if lower conntype = ''keep-alive'' \<and> str_ge protocol_version ''HTTP/1.1''
                    then s1\<lparr>close_connection := False\<rparr>
                    else s1);
              expect = (case headers_get hs ''Expect'' of None \<Rightarrow> [] | Some v \<Rightarrow> v)
          in if lower expect = ''100-continue'' \<and> str_ge protocol_version ''HTTP/1.1''
                \<and> str_ge (request_version s2) ''HTTP/1.1''
             then bind_exc (handle_expect_100 E s2) (\<lambda>s3. Inr (s3, True))
             else Inr (s2, True))"

text \<open>
  The middle part, from the count of the words to the assignment of the path:
  \<^verbatim>\<open>
  if not 2 <= len(words) <= 3:
      self.send_error(HTTPStatus.BAD_REQUEST, "Bad request syntax (%r)" % requestline)
      return False
  command, path = words[:2]
  if len(words) == 2:
      self.close_connection = True
      if command != 'GET':
          self.send_error(HTTPStatus.BAD_REQUEST, "Bad HTTP/0.9 request type (%r)" % command)
          return False
  self.command, self.path = command, path
  if self.path.startswith('//'):
      self.path = '/' + self.path.lstrip('/')
  \<close>
\<close>

definition parse_request_words ::
  "env \<Rightarrow> request \<Rightarrow> string list \<Rightarrow> handler \<Rightarrow> py_exception + (handler \<times> bool)" where
  "parse_request_words E req words self =
     (if \<not> (2 \<le> length words \<and> length words \<le> 3)
      then failed (send_error E 400
             (Some (''Bad request syntax ('' @ repr E (requestline self) @ '')'')) None self)
      else
        let cmd = words ! 0;
            p = words ! 1;
            s1 = (if length words = 2 then self\<lparr>close_connection := True\<rparr> else self)
        in if length words = 2 \<and> cmd \<noteq> ''GET''
           then failed (send_error E 400
                  (Some (''Bad HTTP/0.9 request type ('' @ repr E cmd @ '')'')) None s1)
           else parse_request_headers E req
                  (s1\<lparr>command := Some cmd,
                      path := (if startswith p ''//'' then ''/'' @ lstrip_chars ''/'' p else p)\<rparr>))"

text \<open>
  The first part:
  \<^verbatim>\<open>
  self.command = None
  self.request_version = version = self.default_request_version
  self.close_connection = True
  requestline = str(self.raw_requestline, 'iso-8859-1')
  requestline = requestline.rstrip('\r\n')
  self.requestline = requestline
  words = requestline.split()
  if len(words) == 0:
      return False
  if len(words) >= 3:
      version = words[-1]
      try:
          ...
      except (ValueError, IndexError):
          self.send_error(HTTPStatus.BAD_REQUEST, "Bad request version (%r)" % version)
          return False
      if version_number >= (1, 1) and self.protocol_version >= "HTTP/1.1":
          self.close_connection = False
      if version_number >= (2, 0):
          self.send_error(HTTPStatus.HTTP_VERSION_NOT_SUPPORTED,
                          "Invalid HTTP version (%s)" % base_version_number)
          return False
      self.request_version = version
  \<close>
\<close>

definition parse_request ::
  "env \<Rightarrow> request \<Rightarrow> handler \<Rightarrow> py_exception + (handler \<times> bool)" where
  "parse_request E req self =
     (let s0 = self\<lparr>command := None, request_version := default_request_version,
                    close_connection := True\<rparr>;
          s1 = s0\<lparr>requestline := rstrip_chars CRLF (raw_requestline req)\<rparr>;
          words = split_ws (requestline s1)
      in if length words = 0 then Inr (s1, False)
         else if length words \<ge> 3
         then (let version = last words
               in case parse_version version of
                    None \<Rightarrow>
                      failed (send_error E 400
                        (Some (''Bad request version ('' @ repr E version @ '')'')) None s1)
                  | Some (major, minor) \<Rightarrow>
                      let s2 = (if (major > 1 \<or> (major = 1 \<and> minor \<ge> 1))
                                   \<and> str_ge protocol_version ''HTTP/1.1''
                                then s1\<lparr>close_connection := False\<rparr> else s1)
                      in if major \<ge> 2
                         then failed (send_error E 505
                                (Some (''Invalid HTTP version ('' @ drop 5 version @ '')''))
                                None s2)
                         else parse_request_words E req words
                                (s2\<lparr>request_version := version\<rparr>))
         else parse_request_words E req words s1)"

subsection \<open>Serving files\<close>

text \<open>
  Inherited, \<^verbatim>\<open>SimpleHTTPRequestHandler.list_directory\<close>; the HTML of the
  listing is the parameter \<open>render_listing\<close>. Only \<^verbatim>\<open>OSError\<close> is caught;
  the encoding of the listing is outside any \<^verbatim>\<open>try\<close> and comes before the
  first line of the response:
  \<^verbatim>\<open>
  try:
      list = os.listdir(path)
  except OSError:
      self.send_error(HTTPStatus.NOT_FOUND, "No permission to list directory")
      return None
  ...
  encoded = '\n'.join(r).encode(enc, 'surrogateescape')
  f = io.BytesIO()
  f.write(encoded)
  f.seek(0)
  self.send_response(HTTPStatus.OK)
  self.send_header("Content-type", "text/html; charset=%s" % enc)
  self.send_header("Content-Length", str(len(encoded)))
  self.end_headers()
  return f
  \<close>
  The methods that return a file object or \<^verbatim>\<open>None\<close> return the bytes that
  are left to copy, or \<open>None\<close>.
\<close>

definition nothing_to_copy ::
  "py_exception + handler \<Rightarrow> py_exception + (handler \<times> bytes option)" where
  "nothing_to_copy r = bind_exc r (\<lambda>s. Inr (s, None))"

definition list_directory ::
  "env \<Rightarrow> string \<Rightarrow> handler \<Rightarrow> py_exception + (handler \<times> bytes option)" where
  "list_directory E p self =
     (case fs_listdir E p of
        Inl (FsOSError errno) \<Rightarrow>
          nothing_to_copy (send_error E 404 (Some ''No permission to list directory'') None self)
      | Inl (FsValueError message) \<Rightarrow> Inl (ValueError message)
      | Inr names \<Rightarrow>
          (case render_listing E (path self) p names of
             None \<Rightarrow> Inl UnicodeEncodeError
           | Some encoded \<Rightarrow>
               let s1 = send_response E 200 None self;
                   s2 = send_header ''Content-type'' (''text/html; charset='' @ fs_encoding E) s1;
                   s3 = send_header ''Content-Length'' (str_nat (length encoded)) s2
               in bind_exc (end_headers s3) (\<lambda>s4. Inr (s4, Some encoded))))"

text \<open>
  Inherited, \<^verbatim>\<open>SimpleHTTPRequestHandler.send_head\<close>, in two parts. The
  second part, from \<^verbatim>\<open>ctype = self.guess_type(path)\<close> on:
  \<^verbatim>\<open>
  ctype = self.guess_type(path)
  if path.endswith("/"):
      self.send_error(HTTPStatus.NOT_FOUND, "File not found")
      return None
  try:
      f = open(path, 'rb')
  except OSError:
      self.send_error(HTTPStatus.NOT_FOUND, "File not found")
      return None
  try:
      fs = os.fstat(f.fileno())
      if ("If-Modified-Since" in self.headers
              and "If-None-Match" not in self.headers):
          try:
              ims = email.utils.parsedate_to_datetime(self.headers["If-Modified-Since"])
          except (TypeError, IndexError, OverflowError, ValueError):
              pass
          else:
              if ims.tzinfo is None:
                  ims = ims.replace(tzinfo=datetime.timezone.utc)
              if ims.tzinfo is datetime.timezone.utc:
                  last_modif = datetime.datetime.fromtimestamp(fs.st_mtime, datetime.timezone.utc)
                  last_modif = last_modif.replace(microsecond=0)
                  if last_modif <= ims:
                      self.send_response(HTTPStatus.NOT_MODIFIED)
                      self.end_headers()
                      f.close()
                      return None
      self.send_response(HTTPStatus.OK)
      self.send_header("Content-type", ctype)
      self.send_header("Content-Length", str(fs[6]))
      self.send_header("Last-Modified", self.date_time_string(fs.st_mtime))
      self.end_headers()
      return f
  \<close>
  The size \<^verbatim>\<open>fs[6]\<close> is the length of the content. An exception of
  \<^verbatim>\<open>open\<close> that is not an \<^verbatim>\<open>OSError\<close> leaves the method, and
  nothing has been sent for the request then.
\<close>

definition not_modified :: "env \<Rightarrow> handler \<Rightarrow> opened_file \<Rightarrow> bool" where
  "not_modified E self f =
     (case headers_get (headers self) ''If-Modified-Since'' of
        None \<Rightarrow> False
      | Some v \<Rightarrow>
          (case headers_get (headers self) ''If-None-Match'' of
             Some w \<Rightarrow> False
           | None \<Rightarrow> (case parsedate E v of None \<Rightarrow> False | Some ims \<Rightarrow> st_mtime f \<le> ims)))"

definition send_head_file ::
  "env \<Rightarrow> string \<Rightarrow> handler \<Rightarrow> py_exception + (handler \<times> bytes option)" where
  "send_head_file E p self =
     (let ctype = guess_type E p
      in if endswith p ''/''
         then nothing_to_copy (send_error E 404 (Some ''File not found'') None self)
         else (case fs_open E p of
                 Inl (FsOSError errno) \<Rightarrow>
                   nothing_to_copy (send_error E 404 (Some ''File not found'') None self)
               | Inl (FsValueError message) \<Rightarrow> Inl (ValueError message)
               | Inr f \<Rightarrow>
                   if not_modified E self f
                   then nothing_to_copy (end_headers (send_response E 304 None self))
                   else
                     let s1 = send_response E 200 None self;
                         s2 = send_header ''Content-type'' ctype s1;
                         s3 = send_header ''Content-Length'' (str_nat (length (content f))) s2;
                         s4 = send_header ''Last-Modified''
                                (date_time_string E (Some (st_mtime f))) s3
                     in bind_exc (end_headers s4) (\<lambda>s5. Inr (s5, Some (content f)))))"

text \<open>
  The first part:
  \<^verbatim>\<open>
  path = self.translate_path(self.path)
  f = None
  if os.path.isdir(path):
      parts = urllib.parse.urlsplit(self.path)
      if not parts.path.endswith('/'):
          self.send_response(HTTPStatus.MOVED_PERMANENTLY)
          new_parts = (parts[0], parts[1], parts[2] + '/', parts[3], parts[4])
          new_url = urllib.parse.urlunsplit(new_parts)
          self.send_header("Location", new_url)
          self.send_header("Content-Length", "0")
          self.end_headers()
          return None
      for index in "index.html", "index.htm":
          index = os.path.join(path, index)
          if os.path.isfile(index):
              path = index
              break
      else:
          return self.list_directory(path)
  \<close>
  The call of \<^verbatim>\<open>urlsplit\<close> is outside any \<^verbatim>\<open>try\<close>: its
  \<^verbatim>\<open>ValueError\<close> leaves the method.
\<close>

definition send_head :: "env \<Rightarrow> handler \<Rightarrow> py_exception + (handler \<times> bytes option)" where
  "send_head E self =
     (let p = translate_path (pct E) (directory self) (path self)
      in if fs_isdir E p
         then (case urlsplit_path E (path self) of
                 Inl message \<Rightarrow> Inl (ValueError message)
               | Inr parts_path \<Rightarrow>
                   if \<not> endswith parts_path ''/''
                   then (let s1 = send_response E 301 None self;
                             s2 = send_header ''Location'' (redirect_url E (path self)) s1;
                             s3 = send_header ''Content-Length'' ''0'' s2
                         in nothing_to_copy (end_headers s3))
                   else if fs_isfile E (join p ''index.html'')
                   then send_head_file E (join p ''index.html'') self
                   else if fs_isfile E (join p ''index.htm'')
                   then send_head_file E (join p ''index.htm'') self
                   else list_directory E p self)
         else send_head_file E p self)"

text \<open>
  Inherited, \<^verbatim>\<open>do_GET\<close> and \<^verbatim>\<open>do_HEAD\<close>:
  \<^verbatim>\<open>
  def do_GET(self):
      f = self.send_head()
      if f:
          try:
              self.copyfile(f, self.wfile)
          finally:
              f.close()

  def do_HEAD(self):
      f = self.send_head()
      if f:
          f.close()
  \<close>
\<close>

definition do_GET :: "env \<Rightarrow> handler \<Rightarrow> py_exception + handler" where
  "do_GET E self =
     bind_exc (send_head E self)
       (\<lambda>(s, f). case f of None \<Rightarrow> Inr s | Some b \<Rightarrow> Inr (s\<lparr>wfile := wfile s @ b\<rparr>))"

definition do_HEAD :: "env \<Rightarrow> handler \<Rightarrow> py_exception + handler" where
  "do_HEAD E self = bind_exc (send_head E self) (\<lambda>(s, f). Inr s)"

subsection \<open>One request, one connection\<close>

text \<open>
  Inherited, \<^verbatim>\<open>BaseHTTPRequestHandler.handle_one_request\<close>. The class has the
  methods \<^verbatim>\<open>do_GET\<close> and \<^verbatim>\<open>do_HEAD\<close> and no other whose name
  starts with \<^verbatim>\<open>do_\<close>:
  \<^verbatim>\<open>
  self.raw_requestline = self.rfile.readline(65537)
  if len(self.raw_requestline) > 65536:
      self.requestline = ''
      self.request_version = ''
      self.command = ''
      self.send_error(HTTPStatus.REQUEST_URI_TOO_LONG)
      return
  if not self.raw_requestline:
      self.close_connection = True
      return
  if not self.parse_request():
      return
  mname = 'do_' + self.command
  if not hasattr(self, mname):
      self.send_error(HTTPStatus.NOT_IMPLEMENTED, "Unsupported method (%r)" % self.command)
      return
  method = getattr(self, mname)
  method()
  self.wfile.flush()
  \<close>
\<close>

definition handle_one_request :: "env \<Rightarrow> request \<Rightarrow> handler \<Rightarrow> py_exception + handler" where
  "handle_one_request E req self =
     (if length (raw_requestline req) > 65536
      then send_error E 414 None None
             (self\<lparr>requestline := [], request_version := [], command := Some []\<rparr>)
      else if raw_requestline req = [] then Inr (self\<lparr>close_connection := True\<rparr>)
      else bind_exc (parse_request E req self)
             (\<lambda>(s, ok).
                if \<not> ok then Inr s
                else (case command s of
                        None \<Rightarrow> Inr s
                      | Some cmd \<Rightarrow>
                          if cmd = ''GET'' then do_GET E s
                          else if cmd = ''HEAD'' then do_HEAD E s
                          else send_error E 501
                                 (Some (''Unsupported method ('' @ repr E cmd @ '')'')) None s)))"

text \<open>
  Inherited, \<^verbatim>\<open>BaseHTTPRequestHandler.handle\<close>, over the requests the client
  sends on the connection; after the last one \<^verbatim>\<open>readline\<close> returns the empty
  line:
  \<^verbatim>\<open>
  def handle(self):
      self.close_connection = True
      self.handle_one_request()
      while not self.close_connection:
          self.handle_one_request()
  \<close>
\<close>

definition end_of_input :: request where
  "end_of_input = \<lparr>raw_requestline = [], header_section = Headers []\<rparr>"

fun handle_requests :: "env \<Rightarrow> request list \<Rightarrow> handler \<Rightarrow> py_exception + handler" where
  "handle_requests E [] self = handle_one_request E end_of_input self"
| "handle_requests E (req # reqs) self =
     bind_exc (handle_one_request E req self)
       (\<lambda>s. if close_connection s then Inr s else handle_requests E reqs s)"

definition handle :: "env \<Rightarrow> request list \<Rightarrow> handler \<Rightarrow> py_exception + handler" where
  "handle E reqs self = handle_requests E reqs (self\<lparr>close_connection := True\<rparr>)"

text \<open>
  The handler object as its constructor makes it
  (\<^verbatim>\<open>SimpleHTTPRequestHandler.__init__\<close> with no \<^verbatim>\<open>directory\<close>
  argument, then \<^verbatim>\<open>setup\<close>): the directory is \<^verbatim>\<open>os.getcwd()\<close>,
  nothing is buffered, nothing is written. The attributes that
  \<^verbatim>\<open>handle_one_request\<close> and \<^verbatim>\<open>parse_request\<close> assign before they
  are read do not exist yet; they are empty here.
\<close>

definition new_handler :: "env \<Rightarrow> handler" where
  "new_handler E =
     \<lparr>request_version = [], command = None, path = [], requestline = [], headers = [],
      directory = getcwd E, headers_buffer = None, wfile = [], close_connection = True,
      log = []\<rparr>"

subsection \<open>Another file system\<close>

text \<open>
  The environment with another file system, and two environments whose file systems
  are the same at every path inside a directory.
\<close>

definition with_fs ::
  "env \<Rightarrow> (string \<Rightarrow> bool) \<Rightarrow> (string \<Rightarrow> bool) \<Rightarrow> (string \<Rightarrow> fs_error + opened_file)
     \<Rightarrow> (string \<Rightarrow> fs_error + string list) \<Rightarrow> env" where
  "with_fs E isdir isfile opn listdir =
     E\<lparr>fs_isdir := isdir, fs_isfile := isfile, fs_open := opn, fs_listdir := listdir\<rparr>"

definition same_inside :: "string \<Rightarrow> env \<Rightarrow> env \<Rightarrow> bool" where
  "same_inside root E E' =
     (\<forall>p. inside root p \<longrightarrow>
        fs_isdir E' p = fs_isdir E p \<and> fs_isfile E' p = fs_isfile E p \<and>
        fs_open E' p = fs_open E p \<and> fs_listdir E' p = fs_listdir E p)"

section \<open>The server and the script\<close>

subsection \<open>The server object\<close>

text \<open>
  What the client side of one accepted connection does: \<open>accept_error\<close> says that
  \<^verbatim>\<open>socket.accept\<close> raises \<^verbatim>\<open>OSError\<close>, \<open>requests\<close> is what the
  client sends, and \<open>io_error\<close> is an exception that reading from or writing to the
  socket raises while the handler runs (a reset connection, a broken pipe), if any.
\<close>

record connection =
  accept_error :: bool
  requests :: "request list"
  io_error :: "py_exception option"

text \<open>
  What one turn of the loop of \<^verbatim>\<open>serve_forever\<close> meets in
  \<^verbatim>\<open>selector.select(poll_interval)\<close>: the interval passes, a connection is
  ready, or a signal makes the call raise.
\<close>

datatype select_result = Timeout | Ready connection | Interrupt py_exception

datatype stderr_item =
    Traceback py_exception
  | HandleError py_exception
  | LogLine log_entry

text \<open>
  The attributes of the server object. \<open>shutdown_request\<close> is
  \<^verbatim>\<open>self.__shutdown_request\<close>; \<open>bound_to\<close> is the address given to
  \<^verbatim>\<open>socket.bind\<close>, once that has succeeded; \<open>responses_sent\<close> is what the
  handlers of the finished connections have written, one entry for each connection.
\<close>

record server =
  server_address :: "string \<times> nat"
  shutdown_request :: bool
  bound_to :: "(string \<times> nat) option"
  socket_open :: bool
  responses_sent :: "bytes list"
  server_stderr :: "stderr_item list"

text \<open>
  The world of the process. The script reads neither \<open>argv\<close> nor \<open>environ\<close>
  nor any file of its own. \<open>stdout_block_buffered\<close> is how the interpreter has set
  up \<^verbatim>\<open>sys.stdout\<close> before the first line of the script runs: when the
  standard output is a terminal the stream is line-buffered, and with the option
  \<^verbatim>\<open>-u\<close> it is written through; otherwise (a pipe, a file) it is
  block-buffered, which is \<open>True\<close> here.
  \<open>os_bind reuse_address reuse_port address\<close> is the error
  number with which \<^verbatim>\<open>bind\<close> fails for a socket with these two options, or
  \<open>None\<close>; \<open>os_listen\<close> is the same for \<^verbatim>\<open>listen\<close>;
  \<open>os_getsockname\<close> is the address the bound socket reports; \<open>select i\<close> is
  what the \<open>i\<close>-th turn of the serving loop meets.
\<close>

record os_env =
  argv :: "string list"
  environ :: "(string \<times> string) list"
  stdout_block_buffered :: bool
  handler_env :: env
  os_bind :: "bool \<Rightarrow> bool \<Rightarrow> string \<times> nat \<Rightarrow> string option"
  os_listen :: "string option"
  os_getsockname :: "string \<times> nat \<Rightarrow> string \<times> nat"
  select :: "nat \<Rightarrow> select_result"

definition allow_reuse_address :: bool where
  "allow_reuse_address = False"

definition allow_reuse_port :: bool where
  "allow_reuse_port = False"

text \<open>
  \<^verbatim>\<open>socketserver.TCPServer\<close>:
  \<^verbatim>\<open>
  def server_bind(self):
      if self.allow_reuse_address and hasattr(socket, "SO_REUSEADDR"):
          self.socket.setsockopt(socket.SOL_SOCKET, socket.SO_REUSEADDR, 1)
      if self.allow_reuse_port and hasattr(socket, "SO_REUSEPORT"):
          self.socket.setsockopt(socket.SOL_SOCKET, socket.SO_REUSEPORT, 1)
      self.socket.bind(self.server_address)
      self.server_address = self.socket.getsockname()

  def server_activate(self):
      self.socket.listen(self.request_queue_size)

  def server_close(self):
      self.socket.close()
  \<close>
\<close>

definition server_bind :: "os_env \<Rightarrow> server \<Rightarrow> py_exception + server" where
  "server_bind W srv =
     (case os_bind W allow_reuse_address allow_reuse_port (server_address srv) of
        Some errno \<Rightarrow> Inl (OSError errno)
      | None \<Rightarrow> Inr (srv\<lparr>bound_to := Some (server_address srv),
                         server_address := os_getsockname W (server_address srv)\<rparr>))"

definition server_activate :: "os_env \<Rightarrow> server \<Rightarrow> py_exception + server" where
  "server_activate W srv =
     (case os_listen W of Some errno \<Rightarrow> Inl (OSError errno) | None \<Rightarrow> Inr srv)"

definition server_close :: "server \<Rightarrow> server" where
  "server_close srv = srv\<lparr>socket_open := False\<rparr>"

text \<open>
  \<^verbatim>\<open>BaseServer.__init__\<close> and \<^verbatim>\<open>TCPServer.__init__\<close>:
  \<^verbatim>\<open>
  def __init__(self, server_address, RequestHandlerClass):
      self.server_address = server_address
      self.RequestHandlerClass = RequestHandlerClass
      self.__is_shut_down = threading.Event()
      self.__shutdown_request = False

  def __init__(self, server_address, RequestHandlerClass, bind_and_activate=True):
      BaseServer.__init__(self, server_address, RequestHandlerClass)
      self.socket = socket.socket(self.address_family, self.socket_type)
      if bind_and_activate:
          try:
              self.server_bind()
              self.server_activate()
          except:
              self.server_close()
              raise
  \<close>
\<close>

definition TCPServer_init :: "os_env \<Rightarrow> string \<times> nat \<Rightarrow> py_exception + server" where
  "TCPServer_init W address =
     (let srv = \<lparr>server_address = address, shutdown_request = False, bound_to = None,
                 socket_open = True, responses_sent = [], server_stderr = []\<rparr>
      in bind_exc (server_bind W srv) (server_activate W))"

text \<open>
  \<^verbatim>\<open>finish_request\<close> constructs the handler, whose constructor runs
  \<^verbatim>\<open>setup\<close>, \<^verbatim>\<open>handle\<close> and \<^verbatim>\<open>finish\<close>;
  \<^verbatim>\<open>process_request\<close> then closes the connection:
  \<^verbatim>\<open>
  def process_request(self, request, client_address):
      self.finish_request(request, client_address)
      self.shutdown_request(request)

  def finish_request(self, request, client_address):
      self.RequestHandlerClass(request, client_address, self)
  \<close>
\<close>

definition finish_request :: "env \<Rightarrow> connection \<Rightarrow> server \<Rightarrow> py_exception + server" where
  "finish_request E conn srv =
     (case io_error conn of
        Some e \<Rightarrow> Inl e
      | None \<Rightarrow>
          bind_exc (handle E (requests conn) (new_handler E))
            (\<lambda>h. Inr (srv\<lparr>responses_sent := responses_sent srv @ [wfile h],
                          server_stderr := server_stderr srv @ map LogLine (log h)\<rparr>)))"

definition process_request :: "env \<Rightarrow> connection \<Rightarrow> server \<Rightarrow> py_exception + server" where
  "process_request E conn srv = finish_request E conn srv"

text \<open>
  \<^verbatim>\<open>BaseServer.handle_error\<close> prints a report to the standard error stream,
  and \<^verbatim>\<open>BaseServer._handle_request_noblock\<close>
  (\<^verbatim>\<open>verify_request\<close> returns \<^verbatim>\<open>True\<close>):
  \<^verbatim>\<open>
  def _handle_request_noblock(self):
      try:
          request, client_address = self.get_request()
      except OSError:
          return
      if self.verify_request(request, client_address):
          try:
              self.process_request(request, client_address)
          except Exception:
              self.handle_error(request, client_address)
              self.shutdown_request(request)
          except:
              self.shutdown_request(request)
              raise
      else:
          self.shutdown_request(request)
  \<close>
  The result is the server with the exception that leaves the method, if one does.
\<close>

definition handle_error :: "py_exception \<Rightarrow> server \<Rightarrow> server" where
  "handle_error e srv = srv\<lparr>server_stderr := server_stderr srv @ [HandleError e]\<rparr>"

definition handle_request_noblock ::
  "env \<Rightarrow> connection \<Rightarrow> server \<Rightarrow> server \<times> py_exception option" where
  "handle_request_noblock E conn srv =
     (if accept_error conn then (srv, None)
      else (case process_request E conn srv of
              Inr srv1 \<Rightarrow> (srv1, None)
            | Inl e \<Rightarrow> if is_Exception e then (handle_error e srv, None) else (srv, Some e)))"

text \<open>
  \<^verbatim>\<open>BaseServer.serve_forever\<close>. The loop has no bound, so the function takes
  the number of turns it may still make: \<open>StillServing\<close> is the loop with its turns
  used up and not left, \<open>Returned\<close> is a normal return, \<open>Raised\<close> an exception
  that leaves the method. \<open>i\<close> counts the turns made.
  \<^verbatim>\<open>
  def serve_forever(self, poll_interval=0.5):
      self.__is_shut_down.clear()
      try:
          with _ServerSelector() as selector:
              selector.register(self, selectors.EVENT_READ)
              while not self.__shutdown_request:
                  ready = selector.select(poll_interval)
                  # bpo-35017: shutdown() called during select(), exit immediately.
                  if self.__shutdown_request:
                      break
                  if ready:
                      self._handle_request_noblock()
                  self.service_actions()
      finally:
          self.__shutdown_request = False
          self.__is_shut_down.set()
  \<close>
  Only \<^verbatim>\<open>shutdown()\<close> sets \<^verbatim>\<open>__shutdown_request\<close>, from another
  thread; the script starts no thread and calls it nowhere, so no step here sets it.
  \<^verbatim>\<open>service_actions\<close> does nothing.
\<close>

datatype serve_result = StillServing server | Returned server | Raised py_exception server

fun serve_forever_loop ::
  "env \<Rightarrow> (nat \<Rightarrow> select_result) \<Rightarrow> nat \<Rightarrow> nat \<Rightarrow> server \<Rightarrow> serve_result" where
  "serve_forever_loop E sel i 0 srv = StillServing srv"
| "serve_forever_loop E sel i (Suc fuel) srv =
     (if shutdown_request srv then Returned (srv\<lparr>shutdown_request := False\<rparr>)
      else (case sel i of
              Interrupt e \<Rightarrow> Raised e (srv\<lparr>shutdown_request := False\<rparr>)
            | Timeout \<Rightarrow>
                if shutdown_request srv then Returned (srv\<lparr>shutdown_request := False\<rparr>)
                else serve_forever_loop E sel (Suc i) fuel srv
            | Ready conn \<Rightarrow>
                if shutdown_request srv then Returned (srv\<lparr>shutdown_request := False\<rparr>)
                else (case handle_request_noblock E conn srv of
                        (srv1, Some e) \<Rightarrow> Raised e (srv1\<lparr>shutdown_request := False\<rparr>)
                      | (srv1, None) \<Rightarrow> serve_forever_loop E sel (Suc i) fuel srv1)))"


definition serve_forever :: "os_env \<Rightarrow> nat \<Rightarrow> server \<Rightarrow> serve_result" where
  "serve_forever W fuel srv = serve_forever_loop (handler_env W) (select W) 0 fuel srv"

subsection \<open>The script\<close>

definition PORT :: nat where
  "PORT = 9999"

datatype run_state = Running | Exited nat

text \<open>
  \<open>stdout\<close> holds the lines that \<^verbatim>\<open>print\<close> has written to the stream
  \<^verbatim>\<open>sys.stdout\<close>, and \<open>stdout_fd\<close> the lines that the stream has passed on
  to the standard output of the process, where the reader of the terminal, the pipe or
  the file finds them. The two differ by what waits in the buffer of the stream.
\<close>

record process =
  stdout :: "string list"
  stdout_fd :: "string list"
  stderr :: "stderr_item list"
  httpd :: "server option"
  run_state :: run_state

text \<open>
  \<^verbatim>\<open>print(line)\<close> writes the line and a newline to \<^verbatim>\<open>sys.stdout\<close>.
  A line-buffered or written-through stream passes the text on at the newline. A
  block-buffered stream keeps it until its buffer of 8192 bytes is full, which the 77
  bytes of the two lines of the script never make it, or until it is flushed.
\<close>

definition flush_stdout :: "process \<Rightarrow> process" where
  "flush_stdout p = p\<lparr>stdout_fd := stdout p\<rparr>"

definition print :: "os_env \<Rightarrow> string \<Rightarrow> process \<Rightarrow> process" where
  "print W line p =
     (let p1 = p\<lparr>stdout := stdout p @ [line]\<rparr>
      in if stdout_block_buffered W then p1 else flush_stdout p1)"

text \<open>
  An exception that nothing catches ends the process. \<^verbatim>\<open>SystemExit\<close> exits
  with its code; for every other exception the interpreter prints the traceback to the
  standard error stream and exits with status 1, and after a
  \<^verbatim>\<open>KeyboardInterrupt\<close> it ends itself by the interrupt signal, which a shell
  reports as 130. On each of these ways out the interpreter is finalised first, which
  flushes \<^verbatim>\<open>sys.stdout\<close>. (A process that a signal kills outright is not
  finalised: what it has passed on is what it had passed on at its last turn.)
\<close>

definition uncaught :: "py_exception \<Rightarrow> process \<Rightarrow> process" where
  "uncaught e p =
     flush_stdout
       (case e of
          SystemExit code \<Rightarrow> p\<lparr>run_state := Exited code\<rparr>
        | KeyboardInterrupt \<Rightarrow> p\<lparr>stderr := stderr p @ [Traceback e], run_state := Exited 130\<rparr>
        | _ \<Rightarrow> p\<lparr>stderr := stderr p @ [Traceback e], run_state := Exited 1\<rparr>)"

text \<open>
  Lines 12 to 15 of \<^verbatim>\<open>server.py\<close>. The process that \<open>main W fuel\<close>
  returns is the process after at most \<open>fuel\<close> turns of the serving loop. The
  \<^verbatim>\<open>with\<close> statement evaluates the constructor first; when that raises, the body
  is not entered. When the body is left, \<^verbatim>\<open>__exit__\<close> calls
  \<^verbatim>\<open>server_close\<close> and an exception goes on.
\<close>

definition main :: "os_env \<Rightarrow> nat \<Rightarrow> process" where
  "main W fuel =
     (let p0 = \<lparr>stdout = [], stdout_fd = [], stderr = [], httpd = None,
                 run_state = Running\<rparr>
      in case TCPServer_init W ('''', PORT) of
           Inl e \<Rightarrow> uncaught e p0
         | Inr srv \<Rightarrow>
             let p1 = print W (''Serving at http://localhost:'' @ str_nat PORT) p0;
                 p2 = print W ''Cross-Origin Isolation headers are enabled.'' p1
             in (case serve_forever W fuel srv of
                   StillServing srv1 \<Rightarrow> p2\<lparr>httpd := Some srv1\<rparr>
                 | Returned srv1 \<Rightarrow>
                     flush_stdout
                       (p2\<lparr>httpd := Some (server_close srv1), run_state := Exited 0\<rparr>)
                 | Raised e srv1 \<Rightarrow> uncaught e (p2\<lparr>httpd := Some (server_close srv1)\<rparr>)))"

section \<open>Concrete inputs\<close>

text \<open>
  The scenario of the specification: the serving root, here \<^verbatim>\<open>/srv/www\<close>,
  holds \<^verbatim>\<open>index.html\<close> with the body \<^verbatim>\<open><h1>hi</h1>\<close> and nothing
  else; a path with a null byte is refused before the file system is asked. The texts
  that are parameters are fixed to short ones.
\<close>

definition example_env :: env where
  "example_env =
     \<lparr>responses = (\<lambda>c. if c = 200 then Some (''OK'', ''Request fulfilled, document follows'')
                        else if c = 301
                        then Some (''Moved Permanently'', ''Object moved permanently'')
                        else if c = 304 then Some (''Not Modified'', ''Document has not changed'')
                        else if c = 400 then Some (''Bad Request'', ''Bad request syntax'')
                        else if c = 404 then Some (''Not Found'', ''Nothing matches the given URI'')
                        else None),
      version_string = ''SimpleHTTP/0.6 Python/3.11.10'',
      date_time_string = (\<lambda>t. case t of None \<Rightarrow> ''Tue, 03 Nov 2026 12:00:00 GMT''
                                   | Some m \<Rightarrow> ''Mon, 02 Nov 2026 12:00:00 GMT''),
      error_page = (\<lambda>code message explain. ''<p>Error code: '' @ str_nat code @ ''</p>''),
      repr = (\<lambda>s. [CHR 0x27] @ s @ [CHR 0x27]),
      pct = (\<lambda>s. s),
      guess_type = (\<lambda>p. if endswith p ''.html'' then ''text/html''
                         else ''application/octet-stream''),
      urlsplit_path = (\<lambda>p. Inr (before_first CHR ''?'' p)),
      redirect_url = (\<lambda>p. p @ ''/''),
      parsedate = (\<lambda>v. if v = ''Tue, 03 Nov 2026 00:00:00 GMT'' then Some 1793664000
                        else None),
      render_listing = (\<lambda>url p names. Some (concat names)),
      fs_encoding = ''utf-8'',
      getcwd = ''/srv/www'',
      fs_isdir = (\<lambda>p. p = ''/srv/www'' \<or> p = ''/srv/www/''),
      fs_isfile = (\<lambda>p. p = ''/srv/www/index.html''),
      fs_open = (\<lambda>p. if CHR 0x00 \<in> set p then Inl (FsValueError ''embedded null byte'')
                      else if p = ''/srv/www/index.html''
                      then Inr \<lparr>content = ''<h1>hi</h1>'', st_mtime = 1793620800\<rparr>
                      else Inl (FsOSError ''ENOENT'')),
      fs_listdir = (\<lambda>p. if CHR 0x00 \<in> set p then Inl (FsValueError ''embedded null byte'')
                         else if p = ''/srv/www'' \<or> p = ''/srv/www/''
                         then Inr [''index.html'']
                         else Inl (FsOSError ''ENOTDIR''))\<rparr>"

text \<open>A handler in the middle of a request of the given version, nothing buffered.\<close>

definition example_handler :: "string \<Rightarrow> handler" where
  "example_handler version =
     (new_handler example_env)
       \<lparr>request_version := version, command := Some ''GET'', path := ''/index.html''\<rparr>"

text \<open>
  A world in which port 9999 is free, the standard output is a terminal, no connection
  ever comes and no signal arrives; fields are changed where an example needs another
  world.
\<close>

definition example_world :: os_env where
  "example_world =
     \<lparr>argv = [''server.py''], environ = [], stdout_block_buffered = False,
      handler_env = example_env,
      os_bind = (\<lambda>reuse_address reuse_port address. None),
      os_listen = None,
      os_getsockname = (\<lambda>(host, port). (''0.0.0.0'', port)),
      select = (\<lambda>i. Timeout)\<rparr>"

definition request_of_line :: "string \<Rightarrow> request" where
  "request_of_line line = \<lparr>raw_requestline = line @ CRLF, header_section = Headers []\<rparr>"

text \<open>
  The world of a process that is started while the process \<open>p\<close> runs: the operating
  system refuses to bind an address whose port the listening socket of \<open>p\<close> holds
  (neither socket has \<^verbatim>\<open>SO_REUSEADDR\<close> or \<^verbatim>\<open>SO_REUSEPORT\<close> set).
\<close>

definition beside :: "process \<Rightarrow> os_env \<Rightarrow> os_env" where
  "beside p W =
     W\<lparr>os_bind := (\<lambda>reuse_address reuse_port address.
          case httpd p of
            None \<Rightarrow> os_bind W reuse_address reuse_port address
          | Some srv \<Rightarrow>
              if run_state p = Running \<and> socket_open srv
                 \<and> map_option snd (bound_to srv) = Some (snd address)
              then Some ''EADDRINUSE''
              else os_bind W reuse_address reuse_port address)\<rparr>"

text \<open>The server object of the example world once it is bound.\<close>

definition example_server :: server where
  "example_server =
     \<lparr>server_address = (''0.0.0.0'', 9999), shutdown_request = False,
      bound_to = Some ('''', 9999), socket_open = True, responses_sent = [],
      server_stderr = []\<rparr>"

section \<open>Responses as a client reads them\<close>

text \<open>
  The head of a response that carries the two isolation headers: the status line, the
  two headers that \<open>send_response\<close> always sends, any further headers, then the
  Cross-Origin-Opener-Policy line, the Cross-Origin-Embedder-Policy line and the blank
  line.
\<close>

definition response_head :: "env \<Rightarrow> nat \<Rightarrow> string \<Rightarrow> (string \<times> string) list \<Rightarrow> bytes" where
  "response_head E code message hs =
     protocol_version @ '' '' @ str_nat code @ '' '' @ message @ CRLF
     @ header_line ''Server'' (version_string E)
     @ header_line ''Date'' (date_time_string E None)
     @ concat (map (\<lambda>(k, v). header_line k v) hs)
     @ ''Cross-Origin-Opener-Policy: same-origin'' @ CRLF
     @ ''Cross-Origin-Embedder-Policy: require-corp'' @ CRLF
     @ CRLF"

text \<open>
  What the handler sends as the body of a response: nothing, an error page, the content
  of a file that \<^verbatim>\<open>open\<close> has opened, or the encoded HTML of a listing.
\<close>

definition is_body :: "env \<Rightarrow> bytes \<Rightarrow> bool" where
  "is_body E b \<longleftrightarrow>
     b = []
     \<or> (\<exists>code message explain. b = error_page E code message explain)
     \<or> (\<exists>p f. fs_open E p = Inr f \<and> b = content f)
     \<or> (\<exists>url p names. render_listing E url p names = Some b)"

text \<open>
  What comes before the body in an answer to a request of the given version: nothing
  for \<^verbatim>\<open>HTTP/0.9\<close>, a head with the isolation headers for any other version.
  \<open>sent E s t body\<close> says that between the handler states \<open>s\<close> and \<open>t\<close> one
  such answer with that body has been written, and nothing is left in the buffer.
\<close>

definition headed :: "env \<Rightarrow> string \<Rightarrow> bytes \<Rightarrow> bool" where
  "headed E version h \<longleftrightarrow>
     (if version = ''HTTP/0.9'' then h = []
      else \<exists>code message hs. h = response_head E code message hs)"

definition sent :: "env \<Rightarrow> handler \<Rightarrow> handler \<Rightarrow> bytes \<Rightarrow> bool" where
  "sent E s t body \<longleftrightarrow>
     request_version t = request_version s \<and> command t = command s \<and> buffered t = []
     \<and> (\<exists>h. headed E (request_version s) h \<and> wfile t = wfile s @ h @ body)"

section \<open>The header injection\<close>

subsection \<open>Decimal numerals\<close>

text \<open>
  The defining equation of \<open>str_nat\<close> rewrites every term \<open>str_nat n\<close> into one
  that holds \<open>str_nat (n div 10)\<close>; as a simplification rule it is replaced by its
  two conditional halves.
\<close>

lemma str_nat_small: "n < 10 \<Longrightarrow> str_nat n = [digit_char n]"
  by (subst str_nat.simps) simp

lemma str_nat_big: "\<not> n < 10 \<Longrightarrow> str_nat n = str_nat (n div 10) @ [digit_char (n mod 10)]"
  by (subst str_nat.simps) simp

declare str_nat.simps [simp del]

declare str_nat_small [simp] str_nat_big [simp]

subsection \<open>What the two calls of the override do\<close>

lemma lower_coop: "lower ''Cross-Origin-Opener-Policy'' \<noteq> ''connection''"
  by (simp add: lower_def)

lemma lower_coep: "lower ''Cross-Origin-Embedder-Policy'' \<noteq> ''connection''"
  by (simp add: lower_def)

lemma lower_Connection: "lower ''Connection'' = ''connection''"
  by code_simp

lemma lower_close: "lower ''close'' = ''close''"
  by code_simp

lemma send_header_version [simp]:
  "request_version (send_header k v self) = request_version self"
  by (simp add: send_header_def Let_def)

lemma send_header_wfile [simp]: "wfile (send_header k v self) = wfile self"
  by (simp add: send_header_def Let_def)

lemma send_header_buffered:
  "buffered (send_header k v self) =
     (if request_version self \<noteq> ''HTTP/0.9'' then buffered self @ [header_line k v]
      else buffered self)"
  by (simp add: send_header_def Let_def buffered_def)

lemma at_finalize_eq:
  "at_finalize self =
     (if request_version self \<noteq> ''HTTP/0.9''
      then self\<lparr>headers_buffer := Some (buffered self @ [COOP, COEP])\<rparr>
      else self)"
  by (simp add: at_finalize_def send_header_def lower_coop lower_coep buffered_def
      COOP_def COEP_def Let_def)

lemma end_headers_at_finalize: "end_headers self = super_end_headers (at_finalize self)"
  by (simp add: end_headers_def at_finalize_def Let_def)

lemma end_headers_eq:
  "end_headers self =
     (if request_version self \<noteq> ''HTTP/0.9''
      then Inr (self\<lparr>wfile := wfile self @ concat (buffered self) @ COOP @ COEP @ CRLF,
                     headers_buffer := Some []\<rparr>)
      else Inr self)"
  by (simp add: end_headers_at_finalize at_finalize_eq super_end_headers_def flush_headers_def)

lemma COOP_neq_COEP: "COOP \<noteq> COEP"
  by (simp add: COOP_def COEP_def header_line_def)

lemma send_headers_version [simp]:
  "request_version (send_headers hs self) = request_version self"
  unfolding send_headers_def by (induction hs arbitrary: self) auto

lemma send_headers_wfile [simp]: "wfile (send_headers hs self) = wfile self"
  unfolding send_headers_def by (induction hs arbitrary: self) auto

lemma send_headers_buffered:
  "request_version self \<noteq> ''HTTP/0.9'' \<Longrightarrow>
   buffered (send_headers hs self) = buffered self @ map (\<lambda>(k, v). header_line k v) hs"
  unfolding send_headers_def
  by (induction hs arbitrary: self) (auto simp: send_header_buffered)

lemma send_headers_http09:
  "request_version self = ''HTTP/0.9'' \<Longrightarrow> buffered (send_headers hs self) = buffered self"
  unfolding send_headers_def
  by (induction hs arbitrary: self) (auto simp: send_header_buffered)

lemma send_response_only_version [simp]:
  "request_version (send_response_only E code message self) = request_version self"
  by (simp add: send_response_only_def)

lemma send_response_only_wfile [simp]:
  "wfile (send_response_only E code message self) = wfile self"
  by (simp add: send_response_only_def)

lemma send_response_only_buffered:
  "buffered (send_response_only E code message self) =
     (if request_version self \<noteq> ''HTTP/0.9'' then buffered self @ [status_line E code message]
      else buffered self)"
  by (simp add: send_response_only_def buffered_def)

subsection \<open>C10: two lines, in order, after the delegate's, never deduplicated\<close>

text \<open>
  C10, as amended. On a handler whose request version is not \<^verbatim>\<open>HTTP/0.9\<close>,
  one call of \<open>end_headers\<close> appends exactly two lines to the header buffer, the
  Cross-Origin-Opener-Policy line first and the Cross-Origin-Embedder-Policy line second,
  after everything the delegate had buffered, and the call sends the buffer with those
  two lines and the blank line. Nothing is deduplicated: each of the two lines occurs
  once more than it did before, so a copy the delegate had buffered stays.
\<close>

theorem end_headers_appends_two:
  assumes "request_version self \<noteq> ''HTTP/0.9''"
  shows "buffered (at_finalize self) = buffered self @ [COOP, COEP]
       \<and> end_headers self =
           Inr (self\<lparr>wfile := wfile self @ concat (buffered self @ [COOP, COEP, CRLF]),
                     headers_buffer := Some []\<rparr>)
       \<and> count_list (buffered (at_finalize self)) COOP = count_list (buffered self) COOP + 1
       \<and> count_list (buffered (at_finalize self)) COEP = count_list (buffered self) COEP + 1"
proof -
  have b: "buffered (at_finalize self) = buffered self @ [COOP, COEP]"
    using assms by (simp add: at_finalize_eq buffered_def)
  have e: "end_headers self =
      Inr (self\<lparr>wfile := wfile self @ concat (buffered self @ [COOP, COEP, CRLF]),
                headers_buffer := Some []\<rparr>)"
    using assms by (simp add: end_headers_eq)
  have c1: "count_list (buffered self @ [COOP, COEP]) COOP = count_list (buffered self) COOP + 1"
    using COOP_neq_COEP by simp
  have c2: "count_list (buffered self @ [COOP, COEP]) COEP = count_list (buffered self) COEP + 1"
    using COOP_neq_COEP by simp
  show ?thesis using b e c1 c2 by simp
qed

text \<open>
  The witness: the delegate has buffered a status line and its own
  Cross-Origin-Opener-Policy header with another value; both copies are in the buffer
  when the headers are finalised, the delegate's first.
\<close>

theorem end_headers_appends_two_witness:
  "request_version
     ((example_handler ''HTTP/1.1'')
        \<lparr>headers_buffer := Some [''HTTP/1.0 200 OK'' @ CRLF,
            header_line ''Cross-Origin-Opener-Policy'' ''unsafe-none'']\<rparr>) \<noteq> ''HTTP/0.9''
   \<and> buffered (at_finalize
     ((example_handler ''HTTP/1.1'')
        \<lparr>headers_buffer := Some [''HTTP/1.0 200 OK'' @ CRLF,
            header_line ''Cross-Origin-Opener-Policy'' ''unsafe-none'']\<rparr>))
     = [''HTTP/1.0 200 OK'' @ CRLF,
        header_line ''Cross-Origin-Opener-Policy'' ''unsafe-none'', COOP, COEP]"
  using end_headers_appends_two
    [of "(example_handler ''HTTP/1.1'')
        \<lparr>headers_buffer := Some [''HTTP/1.0 200 OK'' @ CRLF,
            header_line ''Cross-Origin-Opener-Policy'' ''unsafe-none'']\<rparr>"]
  by (simp add: buffered_def example_handler_def)

text \<open>
  The claim as it is written fails for a request of version \<^verbatim>\<open>HTTP/0.9\<close> (a
  request line of two words, such as \<^verbatim>\<open>GET /index.html\<close>): \<open>send_header\<close>
  buffers nothing for it, so the call appends no header and sends nothing.
\<close>

theorem end_headers_appends_two_counterexample:
  "buffered (at_finalize (example_handler ''HTTP/0.9'')) = []
   \<and> end_headers (example_handler ''HTTP/0.9'') = Inr (example_handler ''HTTP/0.9'')"
  by (simp add: at_finalize_eq end_headers_eq buffered_def example_handler_def new_handler_def)

subsection \<open>C2: the injection point and the frame\<close>

text \<open>
  C2. The override passes its two headers to \<open>send_header\<close> and only then calls
  the inherited \<open>end_headers\<close>, which is where the buffer is finalised and sent.
  When the two headers are added nothing of the response has been written to the
  connection, the header lines the delegate had buffered are all still there, in their
  places (the old buffer is a prefix of the new one), and no other attribute of the
  handler has changed. What the call then sends is either nothing (a request of version
  \<^verbatim>\<open>HTTP/0.9\<close>, which has no status line and no headers) or the delegate's
  buffer as it was, followed by the two lines and the blank line.
\<close>

theorem injection_is_additive:
  "end_headers self = super_end_headers (at_finalize self)
   \<and> wfile (at_finalize self) = wfile self
   \<and> prefix (buffered self) (buffered (at_finalize self))
   \<and> at_finalize self = self\<lparr>headers_buffer := headers_buffer (at_finalize self)\<rparr>
   \<and> (\<exists>s'. end_headers self = Inr s'
          \<and> wfile s' \<in> {wfile self,
                         wfile self @ concat (buffered self) @ COOP @ COEP @ CRLF})"
proof -
  have 1: "end_headers self = super_end_headers (at_finalize self)"
    by (rule end_headers_at_finalize)
  have 2: "wfile (at_finalize self) = wfile self"
    by (simp add: at_finalize_eq)
  have 3: "prefix (buffered self) (buffered (at_finalize self))"
    by (simp add: at_finalize_eq buffered_def)
  have 4: "at_finalize self = self\<lparr>headers_buffer := headers_buffer (at_finalize self)\<rparr>"
    by (simp add: at_finalize_eq)
  have 5: "\<exists>s'. end_headers self = Inr s'
          \<and> wfile s' \<in> {wfile self,
                         wfile self @ concat (buffered self) @ COOP @ COEP @ CRLF}"
    by (simp add: end_headers_eq)
  show ?thesis using 1 2 3 4 5 by blast
qed

theorem injection_is_additive_witness:
  "prefix [''HTTP/1.0 200 OK'' @ CRLF, header_line ''Content-Length'' ''11'']
     (buffered (at_finalize
       ((example_handler ''HTTP/1.0'')
          \<lparr>headers_buffer := Some [''HTTP/1.0 200 OK'' @ CRLF,
              header_line ''Content-Length'' ''11'']\<rparr>)))
   \<and> wfile (at_finalize
       ((example_handler ''HTTP/1.0'')
          \<lparr>headers_buffer := Some [''HTTP/1.0 200 OK'' @ CRLF,
              header_line ''Content-Length'' ''11'']\<rparr>)) = []"
  using injection_is_additive
    [of "(example_handler ''HTTP/1.0'')
          \<lparr>headers_buffer := Some [''HTTP/1.0 200 OK'' @ CRLF,
              header_line ''Content-Length'' ''11'']\<rparr>"]
  by (simp add: buffered_def example_handler_def new_handler_def)

section \<open>What the handler can raise\<close>

text \<open>
  The inherited \<open>end_headers\<close> raises \<^verbatim>\<open>AttributeError\<close> when nothing has
  been buffered. Under the override it cannot: the two headers are buffered first. So
  sending an error response and parsing a request always return.
\<close>

lemma end_headers_Inr: "\<exists>s. end_headers self = Inr s"
  by (simp add: end_headers_eq)

lemma bind_exc_total:
  "\<exists>x. m = Inr x \<Longrightarrow> (\<And>x. \<exists>y. f x = Inr y) \<Longrightarrow> \<exists>y. bind_exc m f = Inr y"
  by (auto simp: bind_exc_def)

lemma send_error_Inr: "\<exists>s. send_error E code message explain self = Inr s"
  unfolding send_error_def Let_def
  apply (split prod.split)
  apply (intro allI impI)
  apply (rule bind_exc_total)
   apply (rule end_headers_Inr)
  apply simp
  done

lemma failed_Inr: "\<exists>s. r = Inr s \<Longrightarrow> \<exists>s ok. failed r = Inr (s, ok)"
  by (auto simp: failed_def bind_exc_def)

lemma bind_exc_pair_total:
  "\<exists>x. m = Inr x \<Longrightarrow> \<exists>s y. bind_exc m (\<lambda>x. Inr (x, c)) = Inr (s, y)"
  by (auto simp: bind_exc_def)

lemma handle_expect_100_Inr: "\<exists>s. handle_expect_100 E self = Inr s"
  by (simp add: handle_expect_100_def end_headers_Inr)

lemma parse_request_headers_Inr: "\<exists>s ok. parse_request_headers E req self = Inr (s, ok)"
  unfolding parse_request_headers_def Let_def
  apply (split header_parse.split)
  apply (intro conjI allI impI)
    apply (split if_split)
    apply (intro conjI impI)
     apply (rule bind_exc_pair_total [OF handle_expect_100_Inr])
    apply blast
   apply (rule failed_Inr [OF send_error_Inr])
  apply (rule failed_Inr [OF send_error_Inr])
  done

lemma parse_request_words_Inr: "\<exists>s ok. parse_request_words E req words self = Inr (s, ok)"
  unfolding parse_request_words_def Let_def
  apply (split if_split)
  apply (intro conjI impI)
   apply (rule failed_Inr [OF send_error_Inr])
  apply (split if_split)
  apply (intro conjI impI)
   apply (rule failed_Inr [OF send_error_Inr])
  apply (rule parse_request_headers_Inr)
  done

lemma parse_request_Inr: "\<exists>s ok. parse_request E req self = Inr (s, ok)"
  unfolding parse_request_def Let_def
  apply (split if_split)
  apply (intro conjI impI)
   apply blast
  apply (split if_split)
  apply (intro conjI impI)
   apply (split option.split)
   apply (intro conjI allI impI)
    apply (rule failed_Inr [OF send_error_Inr])
   apply (split prod.split)
   apply (intro allI impI)
   apply (split if_split)
   apply (intro conjI impI)
    apply (rule failed_Inr [OF send_error_Inr])
   apply (rule parse_request_words_Inr)
  apply (rule parse_request_words_Inr)
  done


lemma send_error_not_Inl [simp]: "send_error E c m x s \<noteq> Inl e"
  using send_error_Inr [of E c m x s] by auto

lemma end_headers_not_Inl [simp]: "end_headers s \<noteq> Inl e"
  using end_headers_Inr [of s] by auto

lemma parse_request_not_Inl [simp]: "parse_request E req s \<noteq> Inl e"
  using parse_request_Inr [of E req s] by auto

lemma nothing_to_copy_Inl_iff [simp]: "nothing_to_copy r = Inl e \<longleftrightarrow> r = Inl e"
  by (cases r) (simp_all add: nothing_to_copy_def bind_exc_def)









section \<open>The process: start, status lines, serving loop\<close>

subsection \<open>The constructor and the loop\<close>

lemma str_nat_PORT: "str_nat PORT = ''9999''"
  by (simp add: PORT_def digit_char_def)


lemma TCPServer_init_bind_fails:
  "os_bind W False False address = Some errno \<Longrightarrow>
   TCPServer_init W address = Inl (OSError errno)"
  by (simp add: TCPServer_init_def server_bind_def bind_exc_def allow_reuse_address_def
      allow_reuse_port_def Let_def)






subsection \<open>The script from start to the loop\<close>

lemma uncaught_frame [simp]:
  "stdout (uncaught e p) = stdout p" "httpd (uncaught e p) = httpd p"
  "stdout_fd (uncaught e p) = stdout p"
  by (cases e; simp add: uncaught_def flush_stdout_def)+


lemma main_after_bind:
  assumes "TCPServer_init W ('''', PORT) = Inr srv"
  shows "main W fuel =
     (case serve_forever W fuel srv of
        StillServing s1 \<Rightarrow>
          \<lparr>stdout = [''Serving at http://localhost:9999'',
                     ''Cross-Origin Isolation headers are enabled.''],
           stdout_fd = (if stdout_block_buffered W then []
                        else [''Serving at http://localhost:9999'',
                              ''Cross-Origin Isolation headers are enabled.'']),
           stderr = [], httpd = Some s1, run_state = Running\<rparr>
      | Returned s1 \<Rightarrow>
          \<lparr>stdout = [''Serving at http://localhost:9999'',
                     ''Cross-Origin Isolation headers are enabled.''],
           stdout_fd = [''Serving at http://localhost:9999'',
                        ''Cross-Origin Isolation headers are enabled.''],
           stderr = [], httpd = Some (server_close s1), run_state = Exited 0\<rparr>
      | Raised e s1 \<Rightarrow>
          uncaught e
            \<lparr>stdout = [''Serving at http://localhost:9999'',
                       ''Cross-Origin Isolation headers are enabled.''],
             stdout_fd = (if stdout_block_buffered W then []
                          else [''Serving at http://localhost:9999'',
                                ''Cross-Origin Isolation headers are enabled.'']),
             stderr = [], httpd = Some (server_close s1), run_state = Running\<rparr>)"
  using assms
  by (simp add: main_def print_def flush_stdout_def str_nat_PORT Let_def
      split: serve_result.split)






lemma example_world_init: "TCPServer_init example_world ('''', PORT) = Inr example_server"
  by (simp add: TCPServer_init_def server_bind_def server_activate_def bind_exc_def
      example_world_def example_server_def PORT_def Let_def)

lemma example_world_buffering [simp]: "\<not> stdout_block_buffered example_world"
  by (simp add: example_world_def)

lemma example_world_idle:
  "serve_forever example_world (Suc (Suc (Suc 0))) example_server = StillServing example_server"
  "serve_forever example_world (Suc (Suc 0)) example_server = StillServing example_server"
  by (simp_all add: serve_forever_def example_world_def example_server_def)

subsection \<open>C3: a failed bind is fatal\<close>

text \<open>
  C3. The script asks for the address \<^verbatim>\<open>("", 9999)\<close>, every interface at the
  configured port, with neither \<^verbatim>\<open>SO_REUSEADDR\<close> nor \<^verbatim>\<open>SO_REUSEPORT\<close>.
  If the operating system refuses it, with whatever error number (the port is in use,
  the process lacks the permission), then however long the process is observed it has
  ended with status 1, the error is on its standard error stream as a traceback, it
  has printed nothing to its standard output, and there is no server object, so no
  request has been served.
\<close>

theorem bind_failure_is_fatal:
  assumes "os_bind W False False ('''', 9999) = Some errno"
  shows "main W fuel =
     \<lparr>stdout = [], stdout_fd = [], stderr = [Traceback (OSError errno)], httpd = None,
      run_state = Exited 1\<rparr>"
proof -
  have "TCPServer_init W ('''', PORT) = Inl (OSError errno)"
    using assms by (simp add: TCPServer_init_bind_fails PORT_def)
  then show ?thesis
    by (simp add: main_def uncaught_def flush_stdout_def)
qed

text \<open>
  The witness is the second instance: it is started while a first instance, which has
  bound the port and made three turns of its loop, is running.
\<close>

theorem bind_failure_is_fatal_witness:
  "run_state (main example_world (Suc (Suc (Suc 0)))) = Running
   \<and> main (beside (main example_world (Suc (Suc (Suc 0)))) example_world) (Suc (Suc 0)) =
     \<lparr>stdout = [], stdout_fd = [], stderr = [Traceback (OSError ''EADDRINUSE'')],
      httpd = None, run_state = Exited 1\<rparr>"
proof -
  have first: "main example_world (Suc (Suc (Suc 0))) =
     \<lparr>stdout = [''Serving at http://localhost:9999'',
                ''Cross-Origin Isolation headers are enabled.''],
      stdout_fd = [''Serving at http://localhost:9999'',
                   ''Cross-Origin Isolation headers are enabled.''],
      stderr = [], httpd = Some example_server, run_state = Running\<rparr>"
    by (simp add: main_after_bind [OF example_world_init] example_world_idle)
  have "os_bind (beside (main example_world (Suc (Suc (Suc 0)))) example_world)
          False False ('''', 9999) = Some ''EADDRINUSE''"
    by (simp add: first beside_def example_server_def)
  then show ?thesis
    using first bind_failure_is_fatal
      [of "beside (main example_world (Suc (Suc (Suc 0)))) example_world" "''EADDRINUSE''"
          "Suc (Suc 0)"]
    by simp
qed

subsection \<open>C9: the loop is left only from outside\<close>



section \<open>The serving root\<close>

subsection \<open>What a translated path names\<close>

lemma split_on_nonempty: "split_on c s \<noteq> []"
  by (induction s) (auto split: list.splits)

lemma split_on_no_sep: "w \<in> set (split_on c s) \<Longrightarrow> c \<notin> set w"
proof (induction s arbitrary: w)
  case Nil
  then show ?case by simp
next
  case (Cons x s)
  show ?case
  proof (cases "x = c")
    case True
    then show ?thesis using Cons by auto
  next
    case False
    obtain v vs where sp: "split_on c s = v # vs"
      using split_on_nonempty [of c s] by (cases "split_on c s") auto
    then have "w = x # v \<or> w \<in> set vs"
      using Cons.prems False by simp
    then show ?thesis
      using Cons.IH sp False by auto
  qed
qed

lemma split_on_single: "c \<notin> set w \<Longrightarrow> split_on c w = [w]"
  by (induction w) auto

lemma split_on_append:
  "split_on c (a @ c # w) = split_on c a @ split_on c w"
proof (induction a)
  case Nil
  then show ?case by simp
next
  case (Cons x a)
  obtain v vs where "split_on c a = v # vs"
    using split_on_nonempty [of c a] by (cases "split_on c a") auto
  then show ?case using Cons by simp
qed

lemma split_on_snoc: "c \<notin> set w \<Longrightarrow> split_on c (a @ c # w) = split_on c a @ [w]"
  by (simp add: split_on_append split_on_single)

lemma resolve_comps_append:
  "resolve_comps acc (xs @ ys) = resolve_comps (resolve_comps acc xs) ys"
  by (induction xs arbitrary: acc) auto

lemma dirname_simple: "CHR ''/'' \<notin> set w \<Longrightarrow> dirname w = []"
proof -
  assume a: "CHR ''/'' \<notin> set w"
  have "dropWhile (\<lambda>c. c \<noteq> CHR ''/'') (rev w) = []"
    using a by auto
  then show ?thesis by (simp add: dirname_def)
qed

lemma endswith_slash: "endswith a ''/'' \<longleftrightarrow> (\<exists>b. a = b @ ''/'')"
proof
  assume "endswith a ''/''"
  then have "1 \<le> length a" "drop (length a - 1) a = ''/''"
    by (simp_all add: endswith_def)
  then have "a = take (length a - 1) a @ ''/''"
    by (metis append_take_drop_id)
  then show "\<exists>b. a = b @ ''/''" by blast
next
  assume "\<exists>b. a = b @ ''/''"
  then show "endswith a ''/''" by (auto simp: endswith_def)
qed

lemma resolve_snoc_slash: "resolve (b @ ''/'') = resolve b"
proof -
  have "split_on CHR ''/'' (b @ CHR ''/'' # []) = split_on CHR ''/'' b @ [[]]"
    by (simp add: split_on_append)
  then show ?thesis by (simp add: resolve_def resolve_comps_append)
qed

lemma resolve_join:
  assumes "simple w"
  shows "resolve (join a w) = resolve a @ [w]"
proof -
  have ns: "CHR ''/'' \<notin> set w" and ne: "w \<noteq> []" and nd: "w \<noteq> ''.''" "w \<noteq> ''..''"
    using assms by (simp_all add: simple_def)
  have nsw: "\<not> startswith w ''/''"
    using ns ne by (cases w) (auto simp: startswith_def)
  have one: "resolve_comps acc [w] = acc @ [w]" for acc
    using ne nd by simp
  show ?thesis
  proof (cases "a = []")
    case True
    then show ?thesis
      using nsw one [of "[]"] by (simp add: join_def resolve_def split_on_single ns)
  next
    case False
    show ?thesis
    proof (cases "endswith a ''/''")
      case True
      then obtain b where b: "a = b @ ''/''" using endswith_slash by blast
      have "join a w = b @ CHR ''/'' # w"
        using True nsw b by (simp add: join_def)
      then have "resolve (join a w) = resolve_comps (resolve_comps [] (split_on CHR ''/'' b)) [w]"
        by (simp add: resolve_def split_on_snoc ns resolve_comps_append)
      then show ?thesis
        using one b resolve_snoc_slash [of b] by (simp add: resolve_def)
    next
      case nosl: False
      have "join a w = a @ CHR ''/'' # w"
        using nosl nsw False by (simp add: join_def)
      then have "resolve (join a w) = resolve_comps (resolve_comps [] (split_on CHR ''/'' a)) [w]"
        by (simp add: resolve_def split_on_snoc ns resolve_comps_append)
      then show ?thesis
        using one by (simp add: resolve_def)
    qed
  qed
qed

lemma translate_words_resolve:
  "\<forall>w \<in> set ws. w \<noteq> [] \<and> CHR ''/'' \<notin> set w \<Longrightarrow>
   \<exists>vs. resolve (translate_words p ws) = resolve p @ vs"
proof (induction ws arbitrary: p)
  case Nil
  then show ?case by simp
next
  case (Cons w ws)
  have dn: "dirname w = []" using Cons.prems by (simp add: dirname_simple)
  show ?case
  proof (cases "w = ''.'' \<or> w = ''..''")
    case True
    then show ?thesis using Cons dn by auto
  next
    case False
    then have "simple w" using Cons.prems by (simp add: simple_def)
    then have r: "resolve (join p w) = resolve p @ [w]" by (rule resolve_join)
    obtain vs where "resolve (translate_words (join p w) ws) = resolve (join p w) @ vs"
      using Cons.IH [of "join p w"] Cons.prems by auto
    then show ?thesis using False dn r by auto
  qed
qed

lemma translate_path_resolve:
  "\<exists>vs. resolve (translate_path dec dir p) = resolve dir @ vs"
proof -
  let ?ws = "filter (\<lambda>w. w \<noteq> [])
     (split_on CHR ''/'' (normpath (unquote dec (before_first CHR ''#'' (before_first CHR ''?'' p)))))"
  have "\<forall>w \<in> set ?ws. w \<noteq> [] \<and> CHR ''/'' \<notin> set w"
    using split_on_no_sep by auto
  then obtain vs where "resolve (translate_words dir ?ws) = resolve dir @ vs"
    using translate_words_resolve by blast
  then show ?thesis
    using resolve_snoc_slash [of "translate_words dir ?ws"]
    by (auto simp: translate_path_def Let_def)
qed

lemma inside_translate_path: "inside dir (translate_path dec dir p)"
  using translate_path_resolve [of dec dir p] by (auto simp: inside_def)

lemma inside_join_index:
  "simple w \<Longrightarrow> inside dir (join (translate_path dec dir p) w)"
  using translate_path_resolve [of dec dir p]
  by (auto simp: inside_def resolve_join)

lemma simple_index: "simple ''index.html''" "simple ''index.htm''"
  by (simp_all add: simple_def)

subsection \<open>The handler reads the file system inside the serving root only\<close>

lemma with_fs_fields [simp]:
  "responses (with_fs E d f opn l) = responses E"
  "version_string (with_fs E d f opn l) = version_string E"
  "date_time_string (with_fs E d f opn l) = date_time_string E"
  "error_page (with_fs E d f opn l) = error_page E"
  "repr (with_fs E d f opn l) = repr E"
  "pct (with_fs E d f opn l) = pct E"
  "guess_type (with_fs E d f opn l) = guess_type E"
  "urlsplit_path (with_fs E d f opn l) = urlsplit_path E"
  "redirect_url (with_fs E d f opn l) = redirect_url E"
  "parsedate (with_fs E d f opn l) = parsedate E"
  "render_listing (with_fs E d f opn l) = render_listing E"
  "fs_encoding (with_fs E d f opn l) = fs_encoding E"
  "getcwd (with_fs E d f opn l) = getcwd E"
  "fs_isdir (with_fs E d f opn l) = d"
  "fs_isfile (with_fs E d f opn l) = f"
  "fs_open (with_fs E d f opn l) = opn"
  "fs_listdir (with_fs E d f opn l) = l"
  by (simp_all add: with_fs_def)

lemmas branch_cong = if_cong option.case_cong sum.case_cong prod.case_cong
  header_parse.case_cong fs_error.case_cong

lemma status_line_fs [simp]: "status_line (with_fs E d f opn l) = status_line E"
  by (intro ext) (simp add: status_line_def cong: branch_cong)

lemma send_response_only_fs [simp]:
  "send_response_only (with_fs E d f opn l) = send_response_only E"
  by (intro ext) (simp add: send_response_only_def cong: branch_cong)

lemma send_response_fs [simp]: "send_response (with_fs E d f opn l) = send_response E"
  by (intro ext) (simp add: send_response_def cong: branch_cong)

lemma send_error_fs [simp]: "send_error (with_fs E d f opn l) = send_error E"
  by (intro ext) (simp add: send_error_def cong: branch_cong)

lemma handle_expect_100_fs [simp]:
  "handle_expect_100 (with_fs E d f opn l) = handle_expect_100 E"
  by (intro ext) (simp add: handle_expect_100_def)

lemma parse_request_headers_fs [simp]:
  "parse_request_headers (with_fs E d f opn l) = parse_request_headers E"
  by (intro ext) (simp add: parse_request_headers_def cong: branch_cong)

lemma parse_request_words_fs [simp]:
  "parse_request_words (with_fs E d f opn l) = parse_request_words E"
  by (intro ext) (simp add: parse_request_words_def cong: branch_cong)

lemma parse_request_fs [simp]: "parse_request (with_fs E d f opn l) = parse_request E"
  by (intro ext) (simp add: parse_request_def cong: branch_cong)

lemma not_modified_fs [simp]: "not_modified (with_fs E d f opn l) = not_modified E"
  by (intro ext) (simp add: not_modified_def cong: branch_cong)

lemma list_directory_fs:
  "l p = fs_listdir E p \<Longrightarrow> list_directory (with_fs E d f opn l) p self = list_directory E p self"
  by (simp add: list_directory_def cong: branch_cong)

lemma send_head_file_fs:
  "opn p = fs_open E p \<Longrightarrow> send_head_file (with_fs E d f opn l) p self = send_head_file E p self"
  by (simp add: send_head_file_def cong: branch_cong)

lemma send_head_fs:
  assumes "same_inside (directory self) E (with_fs E d f opn l)"
  shows "send_head (with_fs E d f opn l) self = send_head E self"
proof -
  let ?p = "translate_path (pct E) (directory self) (path self)"
  have same: "inside (directory self) q \<Longrightarrow>
      d q = fs_isdir E q \<and> f q = fs_isfile E q \<and> opn q = fs_open E q \<and> l q = fs_listdir E q"
    for q
    using assms by (simp add: same_inside_def)
  have p: "inside (directory self) ?p"
    by (rule inside_translate_path)
  have i1: "inside (directory self) (join ?p ''index.html'')"
    by (rule inside_join_index) (rule simple_index)
  have i2: "inside (directory self) (join ?p ''index.htm'')"
    by (rule inside_join_index) (rule simple_index)
  show ?thesis
    using same [OF p] same [OF i1] same [OF i2]
    by (simp add: send_head_def send_head_file_fs list_directory_fs cong: branch_cong)
qed

lemma do_GET_fs:
  "same_inside (directory self) E (with_fs E d f opn l) \<Longrightarrow>
   do_GET (with_fs E d f opn l) self = do_GET E self"
  by (simp add: do_GET_def send_head_fs)

lemma do_HEAD_fs:
  "same_inside (directory self) E (with_fs E d f opn l) \<Longrightarrow>
   do_HEAD (with_fs E d f opn l) self = do_HEAD E self"
  by (simp add: do_HEAD_def send_head_fs)

lemma bind_exc_Inr_iff: "bind_exc m f = Inr t \<longleftrightarrow> (\<exists>x. m = Inr x \<and> f x = Inr t)"
  by (cases m) (simp_all add: bind_exc_def)

lemma failed_Inr_iff: "failed r = Inr (t, ok) \<longleftrightarrow> r = Inr t \<and> \<not> ok"
  by (cases r) (auto simp: failed_def bind_exc_def)

lemma nothing_to_copy_Inr_iff: "nothing_to_copy r = Inr (t, f) \<longleftrightarrow> r = Inr t \<and> f = None"
  by (cases r) (auto simp: nothing_to_copy_def bind_exc_def)

lemma send_header_directory [simp]: "directory (send_header k v s) = directory s"
  by (simp add: send_header_def Let_def)

lemma send_response_only_directory [simp]:
  "directory (send_response_only E c m s) = directory s"
  by (simp add: send_response_only_def)

lemma send_response_directory [simp]: "directory (send_response E c m s) = directory s"
  by (simp add: send_response_def log_request_def)

lemma end_headers_directory: "end_headers s = Inr t \<Longrightarrow> directory t = directory s"
  by (auto simp: end_headers_eq split: if_splits)

lemma send_error_directory:
  assumes "send_error E c m x s = Inr t"
  shows "directory t = directory s"
proof -
  obtain s4 s5 where e: "end_headers s4 = Inr s5" and d4: "directory s4 = directory s"
    and t: "directory t = directory s5"
    using assms unfolding send_error_def Let_def
    by (auto simp: bind_exc_Inr_iff log_error_def split: prod.splits if_splits)
  show ?thesis using end_headers_directory [OF e] d4 t by simp
qed

lemma handle_expect_100_directory:
  "handle_expect_100 E s = Inr t \<Longrightarrow> directory t = directory s"
  by (auto simp: handle_expect_100_def dest: end_headers_directory)

lemma parse_request_headers_directory:
  assumes "parse_request_headers E req s = Inr (t, ok)"
  shows "directory t = directory s"
proof (cases "header_section req")
  case (Headers hs)
  then show ?thesis
    using assms
    by (auto simp: parse_request_headers_def Let_def bind_exc_Inr_iff
        dest!: handle_expect_100_directory split: if_splits)
next
  case (LineTooLong err)
  then show ?thesis
    using assms by (auto simp: parse_request_headers_def failed_Inr_iff dest: send_error_directory)
next
  case (TooManyHeaders err)
  then show ?thesis
    using assms by (auto simp: parse_request_headers_def failed_Inr_iff dest: send_error_directory)
qed

lemma parse_request_words_directory:
  assumes "parse_request_words E req words s = Inr (t, ok)"
  shows "directory t = directory s"
  using assms unfolding parse_request_words_def Let_def
  by (auto simp: failed_Inr_iff dest!: send_error_directory parse_request_headers_directory
      split: if_splits)

lemma parse_request_directory:
  assumes "parse_request E req s = Inr (t, ok)"
  shows "directory t = directory s"
  using assms unfolding parse_request_def Let_def
  by (auto simp: failed_Inr_iff dest!: send_error_directory parse_request_words_directory
      split: if_splits option.splits prod.splits)

lemma list_directory_directory:
  assumes "list_directory E p s = Inr (t, f)"
  shows "directory t = directory s"
  using assms unfolding list_directory_def Let_def
  by (auto simp: nothing_to_copy_Inr_iff bind_exc_Inr_iff
      dest!: send_error_directory end_headers_directory
      split: option.splits sum.splits fs_error.splits)

lemma send_head_file_directory:
  assumes "send_head_file E p s = Inr (t, f)"
  shows "directory t = directory s"
  using assms unfolding send_head_file_def Let_def
  by (auto simp: nothing_to_copy_Inr_iff bind_exc_Inr_iff
      dest!: send_error_directory end_headers_directory
      split: sum.splits fs_error.splits if_splits)

lemma send_head_directory:
  assumes "send_head E s = Inr (t, f)"
  shows "directory t = directory s"
  using assms unfolding send_head_def Let_def
  by (auto simp: nothing_to_copy_Inr_iff
      dest!: end_headers_directory send_head_file_directory list_directory_directory
      split: if_splits sum.splits)

lemma do_GET_directory: "do_GET E s = Inr t \<Longrightarrow> directory t = directory s"
  by (auto simp: do_GET_def bind_exc_Inr_iff dest!: send_head_directory split: option.splits)

lemma do_HEAD_directory: "do_HEAD E s = Inr t \<Longrightarrow> directory t = directory s"
  by (auto simp: do_HEAD_def bind_exc_Inr_iff dest!: send_head_directory)

lemma handle_one_request_directory:
  assumes "handle_one_request E req s = Inr t"
  shows "directory t = directory s"
  using assms unfolding handle_one_request_def
  by (auto simp: bind_exc_Inr_iff
      dest!: send_error_directory parse_request_directory do_GET_directory do_HEAD_directory
      split: if_splits option.splits)

lemma handle_one_request_fs:
  assumes "same_inside (directory s) E (with_fs E d f opn l)"
  shows "handle_one_request (with_fs E d f opn l) req s = handle_one_request E req s"
proof -
  obtain t ok where p: "parse_request E req s = Inr (t, ok)"
    using parse_request_Inr by blast
  have "directory t = directory s"
    using p by (rule parse_request_directory)
  then have "do_GET (with_fs E d f opn l) t = do_GET E t"
    "do_HEAD (with_fs E d f opn l) t = do_HEAD E t"
    using assms by (simp_all add: do_GET_fs do_HEAD_fs)
  then show ?thesis
    using p by (simp add: handle_one_request_def bind_exc_def cong: branch_cong)
qed

lemma handle_requests_fs:
  "same_inside (directory s) E (with_fs E d f opn l) \<Longrightarrow>
   handle_requests (with_fs E d f opn l) reqs s = handle_requests E reqs s"
proof (induction reqs arbitrary: s)
  case Nil
  then show ?case by (simp add: handle_one_request_fs)
next
  case (Cons req reqs)
  show ?case
  proof (cases "handle_one_request E req s")
    case (Inl e)
    then show ?thesis
      using Cons.prems by (simp add: handle_one_request_fs bind_exc_def)
  next
    case (Inr t)
    then have "directory t = directory s"
      by (rule handle_one_request_directory)
    then have "handle_requests (with_fs E d f opn l) reqs t = handle_requests E reqs t"
      using Cons by simp
    then show ?thesis
      using Inr Cons.prems by (simp add: handle_one_request_fs bind_exc_def)
  qed
qed

lemma handle_fs:
  "same_inside (getcwd E) E (with_fs E d f opn l) \<Longrightarrow>
   handle (with_fs E d f opn l) reqs (new_handler (with_fs E d f opn l))
     = handle E reqs (new_handler E)"
  by (simp add: handle_def new_handler_def handle_requests_fs)

subsection \<open>C6: no file outside the serving root\<close>

text \<open>
  C6. Whatever a request line holds, traversal sequences included, the path that
  \<open>translate_path\<close> makes of it names something inside the serving root, and the
  handler reads the file system at such paths only. So what the server sends on a
  connection does not depend on anything outside the root: with another file system that
  is the same inside the root, every connection gets the same bytes. (A path is
  resolved by its components; symbolic links are not in the model.)
\<close>

theorem no_file_outside_root:
  assumes "same_inside (getcwd E) E (with_fs E d f opn l)"
  shows "finish_request (with_fs E d f opn l) conn srv = finish_request E conn srv
       \<and> (\<forall>p. inside (getcwd E) (translate_path (pct E) (getcwd E) p))"
  using assms by (simp add: finish_request_def handle_fs inside_translate_path
      cong: option.case_cong)

text \<open>
  The witness: the file \<^verbatim>\<open>/etc/passwd\<close> exists in one file system and not in
  the other; the request \<^verbatim>\<open>GET /../../etc/passwd HTTP/1.1\<close> gets the same
  answer in both.
\<close>

theorem no_file_outside_root_witness:
  "finish_request
     (with_fs example_env (fs_isdir example_env) (fs_isfile example_env)
        (\<lambda>p. if p = ''/etc/passwd'' then Inr \<lparr>content = ''root:x:0:0'', st_mtime = 0\<rparr>
             else fs_open example_env p)
        (fs_listdir example_env))
     \<lparr>accept_error = False,
      requests = [request_of_line ''GET /../../etc/passwd HTTP/1.1''],
      io_error = None\<rparr> example_server
   = finish_request example_env
     \<lparr>accept_error = False,
      requests = [request_of_line ''GET /../../etc/passwd HTTP/1.1''],
      io_error = None\<rparr> example_server
   \<and> translate_path (pct example_env) (getcwd example_env) ''/../../etc/passwd''
       = ''/srv/www/etc/passwd''"
proof -
  have out: "\<not> inside ''/srv/www'' ''/etc/passwd''"
    by (simp add: inside_def resolve_def)
  have same: "same_inside (getcwd example_env) example_env
     (with_fs example_env (fs_isdir example_env) (fs_isfile example_env)
        (\<lambda>p. if p = ''/etc/passwd'' then Inr \<lparr>content = ''root:x:0:0'', st_mtime = 0\<rparr>
             else fs_open example_env p)
        (fs_listdir example_env))"
    unfolding same_inside_def using out by (auto simp: example_env_def)
  have tr: "translate_path (pct example_env) (getcwd example_env) ''/../../etc/passwd''
       = ''/srv/www/etc/passwd''"
    by code_simp
  show ?thesis
    using no_file_outside_root [OF same] tr by simp
qed

section \<open>Responses\<close>

subsection \<open>Error responses\<close>

lemma lower_keywords:
  "lower ''Server'' \<noteq> ''connection''"
  "lower ''Date'' \<noteq> ''connection''"
  "lower ''Content-Type'' \<noteq> ''connection''"
  "lower ''Content-type'' \<noteq> ''connection''"
  "lower ''Content-Length'' \<noteq> ''connection''"
  "lower ''Last-Modified'' \<noteq> ''connection''"
  "lower ''Location'' \<noteq> ''connection''"
  by (simp_all add: lower_def)

lemma send_header_plain:
  "lower k \<noteq> ''connection'' \<Longrightarrow> request_version s \<noteq> ''HTTP/0.9'' \<Longrightarrow>
   send_header k v s = s\<lparr>headers_buffer := Some (buffered s @ [header_line k v])\<rparr>"
  by (simp add: send_header_def)

lemma send_header_http09:
  "lower k \<noteq> ''connection'' \<Longrightarrow> request_version s = ''HTTP/0.9'' \<Longrightarrow> send_header k v s = s"
  by (simp add: send_header_def)

lemma send_header_Connection_close:
  "send_header ''Connection'' ''close'' s =
     (if request_version s \<noteq> ''HTTP/0.9''
      then s\<lparr>headers_buffer := Some (buffered s @ [header_line ''Connection'' ''close'']),
             close_connection := True\<rparr>
      else s\<lparr>close_connection := True\<rparr>)"
  by (simp add: send_header_def lower_Connection lower_close)

lemma buffered_update [simp]: "buffered (s\<lparr>headers_buffer := Some b\<rparr>) = b"
  by (simp add: buffered_def)

lemma buffered_log [simp]: "buffered (s\<lparr>log := x\<rparr>) = buffered s"
  by (simp add: buffered_def)

lemma buffered_close [simp]: "buffered (s\<lparr>close_connection := x\<rparr>) = buffered s"
  by (simp add: buffered_def)

lemma send_response_eq:
  "request_version s \<noteq> ''HTTP/0.9'' \<Longrightarrow>
   send_response E code message s =
     s\<lparr>log := log s @ [LogRequest code],
       headers_buffer := Some (buffered s @ [status_line E code message,
         header_line ''Server'' (version_string E),
         header_line ''Date'' (date_time_string E None)])\<rparr>"
  by (simp add: send_response_def log_request_def send_response_only_def send_header_plain
      lower_keywords)

lemma send_response_http09:
  "request_version s = ''HTTP/0.9'' \<Longrightarrow>
   send_response E code message s = s\<lparr>log := log s @ [LogRequest code]\<rparr>"
  by (simp add: send_response_def log_request_def send_response_only_def send_header_http09
      lower_keywords)



subsection \<open>Closing the connection, missing files, files\<close>

lemma send_header_keeps_close:
  "lower k \<noteq> ''connection'' \<Longrightarrow> close_connection (send_header k v s) = close_connection s"
  by (simp add: send_header_def)

lemma end_headers_close_connection:
  "end_headers s = Inr t \<Longrightarrow> close_connection t = close_connection s"
  by (auto simp: end_headers_eq split: if_splits)

lemma send_error_closes:
  assumes "send_error E c m x s = Inr t"
  shows "close_connection t"
proof -
  obtain s4 s5 where e: "end_headers s4 = Inr s5" and c4: "close_connection s4"
    and t: "close_connection t = close_connection s5"
    using assms unfolding send_error_def Let_def
    by (auto simp: bind_exc_Inr_iff send_header_Connection_close send_header_keeps_close
        lower_keywords split: prod.splits if_splits)
  show ?thesis using end_headers_close_connection [OF e] c4 t by simp
qed

lemma parse_request_headers_ok:
  "parse_request_headers E req s = Inr (t, False) \<Longrightarrow> close_connection t"
  by (cases "header_section req")
     (auto simp: parse_request_headers_def Let_def failed_Inr_iff bind_exc_Inr_iff
       dest: send_error_closes split: if_splits)

lemma parse_request_words_closes:
  "parse_request_words E req words s = Inr (t, False) \<Longrightarrow> close_connection t"
  unfolding parse_request_words_def Let_def
  by (auto simp: failed_Inr_iff dest: send_error_closes parse_request_headers_ok
      split: if_splits)

lemma parse_request_closes:
  "parse_request E req s = Inr (t, False) \<Longrightarrow> close_connection t"
  unfolding parse_request_def Let_def
  by (auto simp: failed_Inr_iff dest: send_error_closes parse_request_words_closes
      split: if_splits option.splits prod.splits)




subsection \<open>One request on a connection\<close>

lemma handle_one_GET:
  assumes "parse_request E req (h\<lparr>close_connection := True\<rparr>) = Inr (s, True)"
    and "command s = Some ''GET''"
    and "length (raw_requestline req) \<le> 65536" and "raw_requestline req \<noteq> []"
    and "do_GET E s = Inr t" and "close_connection t"
  shows "handle E [req] h = Inr t"
  using assms by (simp add: handle_def handle_one_request_def bind_exc_def)

lemma handle_one_rejected:
  assumes "parse_request E req (h\<lparr>close_connection := True\<rparr>) = Inr (s, False)"
    and "length (raw_requestline req) \<le> 65536" and "raw_requestline req \<noteq> []"
  shows "handle E [req] h = Inr s"
  using assms parse_request_closes [OF assms(1)]
  by (simp add: handle_def handle_one_request_def bind_exc_def)

lemmas parse_eval = parse_request_def parse_request_words_def parse_request_headers_def
  request_of_line_def rstrip_chars_def CRLF_def split_ws_def isspace_def parse_version_def
  isdigit_def int_of_str_def Let_def default_request_version_def protocol_version_def
  str_ge_def startswith_def headers_get_def lower_def new_handler_def





lemma translate_index:
  "translate_path (pct example_env) ''/srv/www'' ''/index.html'' = ''/srv/www/index.html''"
  by code_simp


subsection \<open>C5: an existing file\<close>




section \<open>Every answer of the handler\<close>

subsection \<open>Heads\<close>

lemma protocol_below_11 [simp]: "\<not> str_ge protocol_version ''HTTP/1.1''"
  by (simp add: str_ge_def protocol_version_def)

lemma status_line_form:
  "\<exists>m. status_line E code mo = protocol_version @ '' '' @ str_nat code @ '' '' @ m @ CRLF"
  by (simp add: status_line_def split: option.split prod.split)

lemma headedI:
  assumes "h = status_line E code mo
             @ header_line ''Server'' (version_string E)
             @ header_line ''Date'' (date_time_string E None)
             @ concat (map (\<lambda>(k, v). header_line k v) hs)
             @ COOP @ COEP @ CRLF"
    and "version \<noteq> ''HTTP/0.9''"
  shows "headed E version h"
proof -
  obtain m where "status_line E code mo
      = protocol_version @ '' '' @ str_nat code @ '' '' @ m @ CRLF"
    using status_line_form by blast
  then have "h = response_head E code m hs"
    using assms(1) by (simp add: response_head_def COOP_def COEP_def header_line_def)
  then show ?thesis
    using assms(2) by (auto simp: headed_def)
qed

lemma send_headers_snoc:
  "send_headers (hs @ [(k, v)]) s = send_header k v (send_headers hs s)"
  by (simp add: send_headers_def)

lemma head_buffered:
  assumes "\<forall>x\<in>set hs. lower (fst x) \<noteq> ''connection''"
  shows "send_headers hs (send_response E code mo s) =
     (if request_version s = ''HTTP/0.9'' then s\<lparr>log := log s @ [LogRequest code]\<rparr>
      else s\<lparr>log := log s @ [LogRequest code],
             headers_buffer := Some (buffered s @ [status_line E code mo,
               header_line ''Server'' (version_string E),
               header_line ''Date'' (date_time_string E None)]
               @ map (\<lambda>(k, v). header_line k v) hs)\<rparr>)"
  using assms
proof (induction hs rule: rev_induct)
  case Nil
  then show ?case
    by (simp add: send_headers_def send_response_eq send_response_http09)
next
  case (snoc x hs)
  obtain k v where x: "x = (k, v)" by (cases x)
  have k: "lower k \<noteq> ''connection''"
    using snoc.prems x by simp
  have "\<forall>x\<in>set hs. lower (fst x) \<noteq> ''connection''"
    using snoc.prems by simp
  then have "send_headers hs (send_response E code mo s) =
     (if request_version s = ''HTTP/0.9'' then s\<lparr>log := log s @ [LogRequest code]\<rparr>
      else s\<lparr>log := log s @ [LogRequest code],
             headers_buffer := Some (buffered s @ [status_line E code mo,
               header_line ''Server'' (version_string E),
               header_line ''Date'' (date_time_string E None)]
               @ map (\<lambda>(k, v). header_line k v) hs)\<rparr>)"
    by (rule snoc.IH)
  then show ?case
    using k by (simp add: x send_headers_snoc send_header_plain send_header_http09)
qed

lemma head_sent:
  assumes "\<forall>x\<in>set hs. lower (fst x) \<noteq> ''connection''"
    and "buffered s = []"
    and "end_headers (send_headers hs (send_response E code mo s)) = Inr t"
  shows "sent E s t [] \<and> close_connection t = close_connection s"
proof (cases "request_version s = ''HTTP/0.9''")
  case True
  then have "t = s\<lparr>log := log s @ [LogRequest code]\<rparr>"
    using assms by (simp add: head_buffered end_headers_eq)
  then show ?thesis
    using True assms(2) by (simp add: sent_def headed_def)
next
  case False
  let ?h = "status_line E code mo
             @ header_line ''Server'' (version_string E)
             @ header_line ''Date'' (date_time_string E None)
             @ concat (map (\<lambda>(k, v). header_line k v) hs)
             @ COOP @ COEP @ CRLF"
  have t: "t = s\<lparr>log := log s @ [LogRequest code], wfile := wfile s @ ?h,
                 headers_buffer := Some []\<rparr>"
    using False assms by (simp add: head_buffered end_headers_eq)
  have "headed E (request_version s) ?h"
    using False by (intro headedI [where hs = hs and code = code and mo = mo]) simp_all
  then show ?thesis
    unfolding sent_def using t by auto
qed

lemma send_header_as_headers:
  "send_header k v (send_response E c m s) = send_headers [(k, v)] (send_response E c m s)"
  "send_header k v (send_headers hs s) = send_headers (hs @ [(k, v)]) s"
  by (simp_all add: send_headers_def)

lemma end_headers_as_headers:
  "end_headers (send_response E c m s) = end_headers (send_headers [] (send_response E c m s))"
  by (simp add: send_headers_def)

lemma is_body_intros:
  "is_body E []"
  "is_body E (error_page E code message explain)"
  "fs_open E p = Inr f \<Longrightarrow> is_body E (content f)"
  "render_listing E url p names = Some b \<Longrightarrow> is_body E b"
  unfolding is_body_def by blast+

lemma buffered_wfile [simp]: "buffered (s\<lparr>wfile := w\<rparr>) = buffered s"
  by (simp add: buffered_def)

subsection \<open>Error responses\<close>

lemma send_error_sent:
  assumes "buffered s = []" and "send_error E code mo xo s = Inr t"
  shows "\<exists>body. is_body E body \<and> sent E s t body"
proof -
  let ?r = "case responses E code of Some r \<Rightarrow> r | None \<Rightarrow> (''???'', ''???'')"
  let ?m = "case mo of None \<Rightarrow> fst ?r | Some m \<Rightarrow> m"
  let ?x = "case xo of None \<Rightarrow> snd ?r | Some x \<Rightarrow> x"
  let ?page = "error_page E code ?m ?x"
  let ?hb = "200 \<le> code \<and> code \<noteq> 204 \<and> code \<noteq> 205 \<and> code \<noteq> 304"
  let ?body = "if command s \<noteq> Some ''HEAD'' \<and> ?hb then ?page else []"
  let ?hs = "(''Connection'', ''close'') #
             (if ?hb then [(''Content-Type'', error_content_type),
                           (''Content-Length'', str_nat (length ?page))] else [])"
  let ?h = "status_line E code (Some ?m)
             @ header_line ''Server'' (version_string E)
             @ header_line ''Date'' (date_time_string E None)
             @ concat (map (\<lambda>(k, v). header_line k v) ?hs)
             @ COOP @ COEP @ CRLF"
  have body: "is_body E ?body"
    by (simp add: is_body_intros)
  show ?thesis
  proof (cases "request_version s = ''HTTP/0.9''")
    case True
    have "\<exists>t'. send_error E code mo xo s = Inr t' \<and> request_version t' = request_version s
        \<and> command t' = command s \<and> buffered t' = [] \<and> wfile t' = wfile s @ ?body"
      using assms(1) True
      by (simp add: send_error_def Let_def case_prod_beta log_error_def send_response_http09
          send_header_Connection_close send_header_http09 lower_keywords end_headers_eq
          bind_exc_def buffered_def)
    then have "sent E s t ?body"
      using True assms(2) by (auto simp: sent_def headed_def)
    then show ?thesis using body by blast
  next
    case False
    have "\<exists>t'. send_error E code mo xo s = Inr t' \<and> request_version t' = request_version s
        \<and> command t' = command s \<and> buffered t' = [] \<and> wfile t' = wfile s @ ?h @ ?body"
      using assms(1) False
      by (auto simp: send_error_def Let_def case_prod_beta log_error_def send_response_eq
          send_header_Connection_close send_header_plain lower_keywords end_headers_eq
          bind_exc_def)
    then have "request_version t = request_version s \<and> command t = command s
        \<and> buffered t = [] \<and> wfile t = wfile s @ ?h @ ?body"
      using assms(2) by auto
    moreover have "headed E (request_version s) ?h"
      using False by (intro headedI [where hs = ?hs and code = code and mo = "Some ?m"]) simp_all
    ultimately have "sent E s t ?body"
      unfolding sent_def by blast
    then show ?thesis using body by blast
  qed
qed

subsection \<open>Files, listings, redirections\<close>

lemma sent_body: "sent E s t [] \<Longrightarrow> sent E s (t\<lparr>wfile := wfile t @ c\<rparr>) c"
  by (auto simp: sent_def)

lemma send_head_file_sent:
  assumes b: "buffered s = []" and r: "send_head_file E p s = Inr (t, f)"
  shows "case f of None \<Rightarrow> (\<exists>body. is_body E body \<and> sent E s t body)
                 | Some c \<Rightarrow> is_body E c \<and> sent E s t []"
proof (cases "endswith p ''/''")
  case True
  then have "send_error E 404 (Some ''File not found'') None s = Inr t" and "f = None"
    using r by (simp_all add: send_head_file_def nothing_to_copy_Inr_iff)
  then show ?thesis
    using send_error_sent [OF b] by simp
next
  case False
  show ?thesis
  proof (cases "fs_open E p")
    case (Inl err)
    show ?thesis
    proof (cases err)
      case (FsOSError errno)
      then have "send_error E 404 (Some ''File not found'') None s = Inr t" and "f = None"
        using r False Inl by (simp_all add: send_head_file_def nothing_to_copy_Inr_iff)
      then show ?thesis
        using send_error_sent [OF b] by simp
    next
      case (FsValueError message)
      then show ?thesis
        using r False Inl by (simp add: send_head_file_def)
    qed
  next
    case (Inr fl)
    show ?thesis
    proof (cases "not_modified E s fl")
      case True
      then have "end_headers (send_headers [] (send_response E 304 None s)) = Inr t"
        and f: "f = None"
        using r False Inr
        by (simp_all add: send_head_file_def nothing_to_copy_Inr_iff send_headers_def)
      then have "sent E s t []"
        using head_sent [of "[]" s E 304 None t] b by simp
      then show ?thesis
        using f is_body_intros(1) by auto
    next
      case nm: False
      let ?hs = "[(''Content-type'', guess_type E p),
                  (''Content-Length'', str_nat (length (content fl))),
                  (''Last-Modified'', date_time_string E (Some (st_mtime fl)))]"
      have "end_headers (send_headers ?hs (send_response E 200 None s)) = Inr t"
        and f: "f = Some (content fl)"
        using r False Inr nm
        by (auto simp: send_head_file_def Let_def bind_exc_Inr_iff send_headers_def)
      then have "sent E s t []"
        using head_sent [of ?hs s E 200 None t] b by (simp add: lower_keywords)
      then show ?thesis
        using f is_body_intros(3) [OF Inr] by simp
    qed
  qed
qed

lemma list_directory_sent:
  assumes b: "buffered s = []" and r: "list_directory E p s = Inr (t, f)"
  shows "case f of None \<Rightarrow> (\<exists>body. is_body E body \<and> sent E s t body)
                 | Some c \<Rightarrow> is_body E c \<and> sent E s t []"
proof (cases "fs_listdir E p")
  case (Inl err)
  show ?thesis
  proof (cases err)
    case (FsOSError errno)
    then have "send_error E 404 (Some ''No permission to list directory'') None s = Inr t"
      and "f = None"
      using r Inl by (simp_all add: list_directory_def nothing_to_copy_Inr_iff)
    then show ?thesis
      using send_error_sent [OF b] by simp
  next
    case (FsValueError message)
    then show ?thesis
      using r Inl by (simp add: list_directory_def)
  qed
next
  case (Inr names)
  show ?thesis
  proof (cases "render_listing E (path s) p names")
    case None
    then show ?thesis
      using r Inr by (simp add: list_directory_def)
  next
    case (Some encoded)
    let ?hs = "[(''Content-type'', ''text/html; charset='' @ fs_encoding E),
                (''Content-Length'', str_nat (length encoded))]"
    have "end_headers (send_headers ?hs (send_response E 200 None s)) = Inr t"
      and f: "f = Some encoded"
      using r Inr Some
      by (auto simp: list_directory_def Let_def bind_exc_Inr_iff send_headers_def)
    then have "sent E s t []"
      using head_sent [of ?hs s E 200 None t] b by (simp add: lower_keywords)
    then show ?thesis
      using f is_body_intros(4) [OF Some] by simp
  qed
qed

lemma send_head_sent:
  assumes b: "buffered s = []" and r: "send_head E s = Inr (t, f)"
  shows "case f of None \<Rightarrow> (\<exists>body. is_body E body \<and> sent E s t body)
                 | Some c \<Rightarrow> is_body E c \<and> sent E s t []"
proof -
  let ?p = "translate_path (pct E) (directory s) (path s)"
  show ?thesis
  proof (cases "fs_isdir E ?p")
    case False
    then have "send_head_file E ?p s = Inr (t, f)"
      using r by (simp add: send_head_def)
    then show ?thesis
      by (rule send_head_file_sent [OF b])
  next
    case True
    show ?thesis
    proof (cases "urlsplit_path E (path s)")
      case (Inl message)
      then show ?thesis
        using r True by (simp add: send_head_def)
    next
      case (Inr parts_path)
      show ?thesis
      proof (cases "endswith parts_path ''/''")
        case False
        let ?hs = "[(''Location'', redirect_url E (path s)), (''Content-Length'', ''0'')]"
        have "end_headers (send_headers ?hs (send_response E 301 None s)) = Inr t"
          and f: "f = None"
          using r True Inr False
          by (simp_all add: send_head_def Let_def nothing_to_copy_Inr_iff send_headers_def)
        then have "sent E s t []"
          using head_sent [of ?hs s E 301 None t] b by (simp add: lower_keywords)
        then show ?thesis
          using f is_body_intros(1) by auto
      next
        case slash: True
        have "send_head_file E (join ?p ''index.html'') s = Inr (t, f)
            \<or> send_head_file E (join ?p ''index.htm'') s = Inr (t, f)
            \<or> list_directory E ?p s = Inr (t, f)"
          using r True Inr slash by (auto simp: send_head_def Let_def split: if_splits)
        then show ?thesis
          using send_head_file_sent [OF b] list_directory_sent [OF b] by blast
      qed
    qed
  qed
qed

lemma do_GET_sent:
  assumes b: "buffered s = []" and r: "do_GET E s = Inr t"
  shows "\<exists>body. is_body E body \<and> sent E s t body"
proof -
  obtain t0 f where h: "send_head E s = Inr (t0, f)"
    and t: "t = (case f of None \<Rightarrow> t0 | Some c \<Rightarrow> t0\<lparr>wfile := wfile t0 @ c\<rparr>)"
    using r by (auto simp: do_GET_def bind_exc_Inr_iff split: option.splits)
  show ?thesis
  proof (cases f)
    case None
    then show ?thesis
      using send_head_sent [OF b h] t by simp
  next
    case (Some c)
    then have "is_body E c" and "sent E s t0 []"
      using send_head_sent [OF b h] by simp_all
    then show ?thesis
      using t Some sent_body [of E s t0 c] by auto
  qed
qed

lemma do_HEAD_sent:
  assumes b: "buffered s = []" and r: "do_HEAD E s = Inr t"
  shows "\<exists>body. is_body E body \<and> sent E s t body"
proof -
  obtain f where h: "send_head E s = Inr (t, f)"
    using r by (auto simp: do_HEAD_def bind_exc_Inr_iff)
  show ?thesis
  proof (cases f)
    case None
    then show ?thesis
      using send_head_sent [OF b h] by simp
  next
    case (Some c)
    then have "sent E s t []"
      using send_head_sent [OF b h] by simp
    then show ?thesis
      using is_body_intros(1) by blast
  qed
qed

subsection \<open>One request on each connection\<close>

text \<open>
  The protocol version of the handler class is \<^verbatim>\<open>HTTP/1.0\<close>, so no request
  keeps its connection open: after any request the handler is done with the connection.
\<close>

lemma send_response_close [simp]:
  "close_connection (send_response E c m s) = close_connection s"
  by (simp add: send_response_def log_request_def send_response_only_def
      send_header_keeps_close lower_keywords Let_def)

lemma list_directory_close:
  assumes "list_directory E p s = Inr (t, f)" and "close_connection s"
  shows "close_connection t"
  using assms unfolding list_directory_def Let_def
  by (auto simp: nothing_to_copy_Inr_iff bind_exc_Inr_iff send_header_keeps_close
      lower_keywords dest!: send_error_closes end_headers_close_connection
      split: option.splits sum.splits fs_error.splits)

lemma send_head_file_close:
  assumes "send_head_file E p s = Inr (t, f)" and "close_connection s"
  shows "close_connection t"
  using assms unfolding send_head_file_def Let_def
  by (auto simp: nothing_to_copy_Inr_iff bind_exc_Inr_iff send_header_keeps_close
      lower_keywords dest!: send_error_closes end_headers_close_connection
      split: sum.splits fs_error.splits if_splits)

lemma send_head_close:
  assumes "send_head E s = Inr (t, f)" and "close_connection s"
  shows "close_connection t"
  using assms unfolding send_head_def Let_def
  by (auto simp: nothing_to_copy_Inr_iff send_header_keeps_close lower_keywords
      dest!: end_headers_close_connection
      dest: send_head_file_close list_directory_close
      split: if_splits sum.splits)

lemma parse_request_headers_close:
  assumes "parse_request_headers E req s = Inr (t, ok)" and "close_connection s"
  shows "close_connection t"
  using assms
  by (cases "header_section req")
     (auto simp: parse_request_headers_def Let_def failed_Inr_iff
       dest: send_error_closes split: if_splits)

lemma parse_request_words_close:
  assumes "parse_request_words E req words s = Inr (t, ok)" and "close_connection s"
  shows "close_connection t"
  using assms unfolding parse_request_words_def Let_def
  by (auto simp: failed_Inr_iff dest: send_error_closes parse_request_headers_close
      split: if_splits)

lemma parse_request_close:
  assumes "parse_request E req s = Inr (t, ok)"
  shows "close_connection t"
  using assms unfolding parse_request_def Let_def
  by (auto simp: failed_Inr_iff dest: send_error_closes parse_request_words_close
      split: if_splits option.splits prod.splits)

lemma handle_one_request_close:
  assumes "handle_one_request E req s = Inr t"
  shows "close_connection t"
proof -
  have get: "close_connection t" if "close_connection u" and "do_GET E u = Inr t" for u
    using that
    by (auto simp: do_GET_def bind_exc_Inr_iff split: option.splits)
       (blast intro: send_head_close)+
  have head: "close_connection t" if "close_connection u" and "do_HEAD E u = Inr t" for u
    using that
    by (auto simp: do_HEAD_def bind_exc_Inr_iff) (blast intro: send_head_close)
  show ?thesis
    using assms unfolding handle_one_request_def
    by (auto simp: bind_exc_Inr_iff
        dest: send_error_closes get head dest!: parse_request_close
        split: if_splits option.splits)
qed

lemma handle_first:
  "handle E (req # reqs) h = handle_one_request E req (h\<lparr>close_connection := True\<rparr>)"
proof (cases "handle_one_request E req (h\<lparr>close_connection := True\<rparr>)")
  case (Inl e)
  then show ?thesis by (simp add: handle_def bind_exc_def)
next
  case (Inr t)
  then show ?thesis
    using handle_one_request_close [OF Inr] by (simp add: handle_def bind_exc_def)
qed

lemma handle_nothing:
  "handle E [] h = Inr (h\<lparr>close_connection := True\<rparr>)"
  by (simp add: handle_def handle_one_request_def end_of_input_def)

subsection \<open>The answer to a request\<close>

lemma parse_request_headers_sent:
  assumes b: "buffered s = []" and r: "parse_request_headers E req s = Inr (t, ok)"
  shows "(ok \<longrightarrow> wfile t = wfile s \<and> buffered t = [] \<and> command t = command s
                \<and> request_version t = request_version s)
       \<and> (\<not> ok \<longrightarrow> (\<exists>body. is_body E body \<and> sent E s t body))"
proof (cases "header_section req")
  case (Headers hs)
  then show ?thesis
    using r b by (auto simp: parse_request_headers_def Let_def buffered_def split: if_splits)
next
  case (LineTooLong err)
  then have "send_error E 431 (Some ''Line too long'') (Some err) s = Inr t" and "\<not> ok"
    using r by (simp_all add: parse_request_headers_def failed_Inr_iff)
  then show ?thesis
    using send_error_sent [OF b] by simp
next
  case (TooManyHeaders err)
  then have "send_error E 431 (Some ''Too many headers'') (Some err) s = Inr t" and "\<not> ok"
    using r by (simp_all add: parse_request_headers_def failed_Inr_iff)
  then show ?thesis
    using send_error_sent [OF b] by simp
qed

lemma parse_request_words_sent:
  assumes b: "buffered s = []" and r: "parse_request_words E req words s = Inr (t, ok)"
  shows "(ok \<longrightarrow> wfile t = wfile s \<and> buffered t = [] \<and> command t \<noteq> None
                \<and> request_version t = request_version s)
       \<and> (\<not> ok \<longrightarrow> (\<exists>s' body. wfile s' = wfile s \<and> is_body E body \<and> sent E s' t body))"
proof (cases "2 \<le> length words \<and> length words \<le> 3")
  case False
  then have "send_error E 400
      (Some (''Bad request syntax ('' @ repr E (requestline s) @ '')'')) None s = Inr t"
    and "\<not> ok"
    using r by (simp_all add: parse_request_words_def failed_Inr_iff)
  then show ?thesis
    using send_error_sent [OF b] by auto
next
  case True
  let ?s1 = "if length words = 2 then s\<lparr>close_connection := True\<rparr> else s"
  have b1: "buffered ?s1 = []" and w1: "wfile ?s1 = wfile s"
    using b by simp_all
  show ?thesis
  proof (cases "length words = 2 \<and> words ! 0 \<noteq> ''GET''")
    case bad: True
    then have "send_error E 400
        (Some (''Bad HTTP/0.9 request type ('' @ repr E (words ! 0) @ '')'')) None ?s1 = Inr t"
      and "\<not> ok"
      using r True by (simp_all add: parse_request_words_def failed_Inr_iff Let_def)
    then show ?thesis
      using send_error_sent [OF b1] w1 by blast
  next
    case good: False
    let ?s2 = "?s1\<lparr>command := Some (words ! 0),
                    path := (if startswith (words ! 1) ''//''
                             then ''/'' @ lstrip_chars ''/'' (words ! 1) else words ! 1)\<rparr>"
    have b2: "buffered ?s2 = []" and w2: "wfile ?s2 = wfile s"
      and v2: "request_version ?s2 = request_version s"
      using b by (simp_all add: buffered_def)
    have "parse_request_headers E req ?s2 = Inr (t, ok)"
      using r True good by (auto simp: parse_request_words_def Let_def split: if_splits)
    then have "(ok \<longrightarrow> wfile t = wfile ?s2 \<and> buffered t = [] \<and> command t = command ?s2
                \<and> request_version t = request_version ?s2)
       \<and> (\<not> ok \<longrightarrow> (\<exists>body. is_body E body \<and> sent E ?s2 t body))"
      by (rule parse_request_headers_sent [OF b2])
    then show ?thesis
      using w2 v2 by (cases ok) (simp, blast)
  qed
qed

lemma parse_request_sent:
  assumes b: "buffered s = []" and r: "parse_request E req s = Inr (t, ok)"
  shows "(ok \<longrightarrow> wfile t = wfile s \<and> buffered t = [] \<and> command t \<noteq> None)
       \<and> (\<not> ok \<longrightarrow> (\<exists>s' body. wfile s' = wfile s \<and> is_body E body \<and> sent E s' t body))"
proof -
  let ?s1 = "s\<lparr>command := None, request_version := default_request_version,
                close_connection := True,
                requestline := rstrip_chars CRLF (raw_requestline req)\<rparr>"
  let ?words = "split_ws (requestline ?s1)"
  have b1: "buffered ?s1 = []" and w1: "wfile ?s1 = wfile s"
    and v1: "request_version ?s1 = ''HTTP/0.9''"
    using b by (simp_all add: buffered_def default_request_version_def)
  have words: ?thesis
    if "parse_request_words E req ?words u = Inr (t, ok)" and "buffered u = []"
      and "wfile u = wfile s" for u
    using parse_request_words_sent [OF that(2) that(1)] that(3) by (cases ok) (simp, auto)
  have error: ?thesis
    if "send_error E c m None u = Inr t" and "\<not> ok" and "buffered u = []"
      and "wfile u = wfile s" for c m u
    using send_error_sent [OF that(3) that(1)] that(2,4) by auto
  show ?thesis
  proof (cases "length ?words = 0")
    case True
    then have "t = ?s1" and "\<not> ok"
      using r by (simp_all add: parse_request_def Let_def)
    then have "sent E ?s1 t []"
      using b1 v1 by (simp add: sent_def headed_def)
    then show ?thesis
      using \<open>\<not> ok\<close> w1 is_body_intros(1) by blast
  next
    case some: False
    show ?thesis
    proof (cases "length ?words \<ge> 3")
      case False
      then have "parse_request_words E req ?words ?s1 = Inr (t, ok)"
        using r some by (simp add: parse_request_def Let_def)
      then show ?thesis
        using b1 w1 by (rule words)
    next
      case True
      show ?thesis
      proof (cases "parse_version (last ?words)")
        case None
        then have "send_error E 400
            (Some (''Bad request version ('' @ repr E (last ?words) @ '')'')) None ?s1 = Inr t"
          and "\<not> ok"
          using r some True by (simp_all add: parse_request_def Let_def failed_Inr_iff)
        then show ?thesis
          using b1 w1 by (rule error)
      next
        case (Some mm)
        obtain major minor where mm: "mm = (major, minor)" by (cases mm)
        show ?thesis
        proof (cases "major \<ge> 2")
          case True2: True
          then have "send_error E 505
              (Some (''Invalid HTTP version ('' @ drop 5 (last ?words) @ '')'')) None ?s1 = Inr t"
            and "\<not> ok"
            using r some True Some mm
            by (simp_all add: parse_request_def Let_def failed_Inr_iff)
          then show ?thesis
            using b1 w1 by (rule error)
        next
          case False
          let ?s3 = "?s1\<lparr>request_version := last ?words\<rparr>"
          have "parse_request_words E req ?words ?s3 = Inr (t, ok)"
            using r some True Some mm False by (simp add: parse_request_def Let_def)
          moreover have "buffered ?s3 = []" and "wfile ?s3 = wfile s"
            using b by (simp_all add: buffered_def)
          ultimately show ?thesis
            by (rule words)
        qed
      qed
    qed
  qed
qed

lemma handle_one_request_sent:
  assumes b: "buffered s = []" and r: "handle_one_request E req s = Inr t"
  shows "(raw_requestline req = [] \<and> wfile t = wfile s)
       \<or> (\<exists>s' body. wfile s' = wfile s \<and> is_body E body \<and> sent E s' t body)"
proof (cases "length (raw_requestline req) > 65536")
  case True
  let ?s0 = "s\<lparr>requestline := [], request_version := [], command := Some []\<rparr>"
  have "send_error E 414 None None ?s0 = Inr t"
    using r True by (simp add: handle_one_request_def)
  moreover have "buffered ?s0 = []" and "wfile ?s0 = wfile s"
    using b by (simp_all add: buffered_def)
  ultimately show ?thesis
    using send_error_sent [of ?s0 E 414 None None t] by blast
next
  case short: False
  show ?thesis
  proof (cases "raw_requestline req = []")
    case True
    then show ?thesis
      using r short by (auto simp: handle_one_request_def)
  next
    case False
    obtain u ok where p: "parse_request E req s = Inr (u, ok)"
      using parse_request_Inr by blast
    note ps = parse_request_sent [OF b p]
    show ?thesis
    proof (cases ok)
      case False
      then have "t = u"
        using r short \<open>raw_requestline req \<noteq> []\<close> p
        by (simp add: handle_one_request_def bind_exc_def)
      then show ?thesis
        using ps False by simp
    next
      case True
      then have wu: "wfile u = wfile s" and bu: "buffered u = []"
        using ps by simp_all
      obtain cmd where cmd: "command u = Some cmd"
        using ps True by auto
      have "do_GET E u = Inr t \<or> do_HEAD E u = Inr t
          \<or> send_error E 501 (Some (''Unsupported method ('' @ repr E cmd @ '')'')) None u
               = Inr t"
        using r short \<open>raw_requestline req \<noteq> []\<close> p True cmd
        by (auto simp: handle_one_request_def bind_exc_def split: if_splits)
      then have "\<exists>body. is_body E body \<and> sent E u t body"
        using do_GET_sent [OF bu] do_HEAD_sent [OF bu] send_error_sent [OF bu] by blast
      then show ?thesis
        using wu by blast
    qed
  qed
qed

lemma handle_sent:
  assumes "handle E reqs (new_handler E) = Inr t"
  shows "(wfile t = [] \<and> (reqs = [] \<or> raw_requestline (hd reqs) = []))
       \<or> (\<exists>body h. is_body E body \<and> headed E (request_version t) h \<and> wfile t = h @ body)"
proof (cases reqs)
  case Nil
  then show ?thesis
    using assms by (auto simp: handle_nothing new_handler_def)
next
  case (Cons req rest)
  let ?s = "(new_handler E)\<lparr>close_connection := True\<rparr>"
  have b: "buffered ?s = []" and w: "wfile ?s = []"
    by (simp_all add: new_handler_def buffered_def)
  have "handle_one_request E req ?s = Inr t"
    using assms Cons by (simp add: handle_first)
  then have "(raw_requestline req = [] \<and> wfile t = wfile ?s)
       \<or> (\<exists>s' body. wfile s' = wfile ?s \<and> is_body E body \<and> sent E s' t body)"
    by (rule handle_one_request_sent [OF b])
  then show ?thesis
    using w Cons by (auto simp: sent_def)
qed

subsection \<open>C1: both headers on every response that has headers\<close>

lemma do_GET_file_http09:
  assumes "request_version s = ''HTTP/0.9''"
    and "\<not> fs_isdir E (translate_path (pct E) (directory s) (path s))"
    and "\<not> endswith (translate_path (pct E) (directory s) (path s)) ''/''"
    and "fs_open E (translate_path (pct E) (directory s) (path s)) = Inr f"
    and "\<not> not_modified E s f"
  shows "do_GET E s = Inr (s\<lparr>log := log s @ [LogRequest 200], wfile := wfile s @ content f\<rparr>)"
  using assms
  by (simp add: do_GET_def send_head_def send_head_file_def bind_exc_def Let_def
      send_response_http09 send_header_http09 lower_keywords end_headers_eq)

lemma parse_dot_11:
  "parse_request example_env (request_of_line ''GET /. HTTP/1.1'')
     ((new_handler example_env)\<lparr>close_connection := True\<rparr>)
   = Inr (example_handler ''HTTP/1.1''
           \<lparr>path := ''/.'', requestline := ''GET /. HTTP/1.1''\<rparr>, True)"
  by (simp add: parse_eval example_handler_def)

lemma parse_index_09:
  "parse_request example_env (request_of_line ''GET /index.html'')
     ((new_handler example_env)\<lparr>close_connection := True\<rparr>)
   = Inr (example_handler ''HTTP/0.9''\<lparr>requestline := ''GET /index.html''\<rparr>, True)"
  by (simp add: parse_eval example_handler_def)

lemma translate_dot:
  "translate_path (pct example_env) ''/srv/www'' ''/.'' = ''/srv/www''"
  by code_simp

text \<open>
  C1, as amended. Whatever a client sends on a connection, if the handler returns, then
  what it has written is one answer to the first request, or nothing when the client
  has sent no request line. For a request whose version is not \<^verbatim>\<open>HTTP/0.9\<close>
  the answer is a response, whatever its status code: the status line, the headers of
  the delegate, then the line \<^verbatim>\<open>Cross-Origin-Opener-Policy: same-origin\<close> and
  the line \<^verbatim>\<open>Cross-Origin-Embedder-Policy: require-corp\<close>, exactly so, then
  the blank line and the body. For a request of version \<^verbatim>\<open>HTTP/0.9\<close> (a
  request line of two words, or one that is rejected before its version is accepted) the
  answer is the body alone, with no status line and no header. The request version is
  the one the handler holds when it is done: the version the library has accepted for
  the request.
\<close>

theorem isolation_headers_on_every_response:
  assumes "handle E reqs (new_handler E) = Inr t"
  shows "(request_version t \<noteq> ''HTTP/0.9'' \<longrightarrow>
            (wfile t = [] \<and> (reqs = [] \<or> raw_requestline (hd reqs) = []))
          \<or> (\<exists>code message hs body. is_body E body \<and>
               wfile t = protocol_version @ '' '' @ str_nat code @ '' '' @ message @ CRLF
                 @ header_line ''Server'' (version_string E)
                 @ header_line ''Date'' (date_time_string E None)
                 @ concat (map (\<lambda>(k, v). header_line k v) hs)
                 @ ''Cross-Origin-Opener-Policy: same-origin'' @ CRLF
                 @ ''Cross-Origin-Embedder-Policy: require-corp'' @ CRLF
                 @ CRLF @ body))
       \<and> (request_version t = ''HTTP/0.9'' \<longrightarrow> is_body E (wfile t))"
proof -
  have "(wfile t = [] \<and> (reqs = [] \<or> raw_requestline (hd reqs) = []))
       \<or> (\<exists>body h. is_body E body \<and> headed E (request_version t) h \<and> wfile t = h @ body)"
    using assms by (rule handle_sent)
  then show ?thesis
  proof
    assume "wfile t = [] \<and> (reqs = [] \<or> raw_requestline (hd reqs) = [])"
    then show ?thesis
      using is_body_intros(1) by simp
  next
    assume "\<exists>body h. is_body E body \<and> headed E (request_version t) h \<and> wfile t = h @ body"
    then obtain body h where body: "is_body E body"
      and h: "headed E (request_version t) h" and w: "wfile t = h @ body"
      by blast
    show ?thesis
    proof (cases "request_version t = ''HTTP/0.9''")
      case True
      then show ?thesis
        using body h w by (simp add: headed_def)
    next
      case False
      then obtain code message hs where "h = response_head E code message hs"
        using h by (auto simp: headed_def)
      then have "wfile t = protocol_version @ '' '' @ str_nat code @ '' '' @ message @ CRLF
                 @ header_line ''Server'' (version_string E)
                 @ header_line ''Date'' (date_time_string E None)
                 @ concat (map (\<lambda>(k, v). header_line k v) hs)
                 @ ''Cross-Origin-Opener-Policy: same-origin'' @ CRLF
                 @ ''Cross-Origin-Embedder-Policy: require-corp'' @ CRLF
                 @ CRLF @ body"
        using w by (simp add: response_head_def)
      then show ?thesis
        using False body by blast
    qed
  qed
qed

text \<open>
  The witness is a redirection: \<^verbatim>\<open>GET /. HTTP/1.1\<close> names the serving root
  without a final slash, and the answer is the response 301 with both headers.
\<close>

theorem isolation_headers_on_every_response_witness:
  "\<exists>t. handle example_env [request_of_line ''GET /. HTTP/1.1''] (new_handler example_env)
          = Inr t
      \<and> request_version t = ''HTTP/1.1''
      \<and> wfile t = ''HTTP/1.0 301 Moved Permanently'' @ CRLF
          @ ''Server: SimpleHTTP/0.6 Python/3.11.10'' @ CRLF
          @ ''Date: Tue, 03 Nov 2026 12:00:00 GMT'' @ CRLF
          @ ''Location: /./'' @ CRLF
          @ ''Content-Length: 0'' @ CRLF
          @ ''Cross-Origin-Opener-Policy: same-origin'' @ CRLF
          @ ''Cross-Origin-Embedder-Policy: require-corp'' @ CRLF
          @ CRLF
      \<and> (\<exists>code message hs body. is_body example_env body \<and>
            wfile t = protocol_version @ '' '' @ str_nat code @ '' '' @ message @ CRLF
              @ header_line ''Server'' (version_string example_env)
              @ header_line ''Date'' (date_time_string example_env None)
              @ concat (map (\<lambda>(k, v). header_line k v) hs)
              @ ''Cross-Origin-Opener-Policy: same-origin'' @ CRLF
              @ ''Cross-Origin-Embedder-Policy: require-corp'' @ CRLF
              @ CRLF @ body)"
proof -
  let ?s = "example_handler ''HTTP/1.1''\<lparr>path := ''/.'', requestline := ''GET /. HTTP/1.1''\<rparr>"
  let ?out = "''HTTP/1.0 301 Moved Permanently'' @ CRLF
          @ ''Server: SimpleHTTP/0.6 Python/3.11.10'' @ CRLF
          @ ''Date: Tue, 03 Nov 2026 12:00:00 GMT'' @ CRLF
          @ ''Location: /./'' @ CRLF
          @ ''Content-Length: 0'' @ CRLF
          @ ''Cross-Origin-Opener-Policy: same-origin'' @ CRLF
          @ ''Cross-Origin-Embedder-Policy: require-corp'' @ CRLF
          @ CRLF"
  let ?t = "?s\<lparr>log := [LogRequest 301], wfile := ?out, headers_buffer := Some []\<rparr>"
  have tr: "translate_path (pct example_env) (directory ?s) (path ?s) = ''/srv/www''"
    using translate_dot by (simp add: example_handler_def new_handler_def example_env_def)
  have v: "request_version ?s \<noteq> ''HTTP/0.9''"
    by (simp add: example_handler_def)
  have g: "do_GET example_env ?s = Inr ?t"
    unfolding do_GET_def send_head_def Let_def tr
    by (simp add: example_env_def before_first_def endswith_def nothing_to_copy_def
        bind_exc_def send_response_eq send_header_plain lower_keywords end_headers_eq v
        status_line_def protocol_version_def header_line_def digit_char_def COOP_def COEP_def
        example_handler_def new_handler_def buffered_def)
  have h: "handle example_env [request_of_line ''GET /. HTTP/1.1''] (new_handler example_env)
      = Inr ?t"
  proof (rule handle_one_GET [OF parse_dot_11 _ _ _ g])
    show "command ?s = Some ''GET''"
      by (simp add: example_handler_def)
    show "close_connection ?t"
      by (simp add: example_handler_def new_handler_def)
  qed (simp_all add: request_of_line_def CRLF_def)
  have "request_version ?t \<noteq> ''HTTP/0.9''" and "wfile ?t \<noteq> []"
    by (simp_all add: example_handler_def)
  then have "\<exists>code message hs body. is_body example_env body \<and>
            wfile ?t = protocol_version @ '' '' @ str_nat code @ '' '' @ message @ CRLF
              @ header_line ''Server'' (version_string example_env)
              @ header_line ''Date'' (date_time_string example_env None)
              @ concat (map (\<lambda>(k, v). header_line k v) hs)
              @ ''Cross-Origin-Opener-Policy: same-origin'' @ CRLF
              @ ''Cross-Origin-Embedder-Policy: require-corp'' @ CRLF
              @ CRLF @ body"
    using isolation_headers_on_every_response [OF h] by blast
  moreover have "request_version ?t = ''HTTP/1.1''" and "wfile ?t = ?out"
    by (simp_all add: example_handler_def)
  ultimately show ?thesis
    using h by blast
qed

text \<open>
  The claim as it is written fails for a request of version \<^verbatim>\<open>HTTP/0.9\<close>: the
  request line \<^verbatim>\<open>GET /index.html\<close>, with no version, is answered with the
  content of the file and nothing before it, so the response has neither of the two
  headers.
\<close>

theorem isolation_headers_on_every_response_counterexample:
  "map_sum id wfile
     (handle example_env [request_of_line ''GET /index.html''] (new_handler example_env))
   = Inr ''<h1>hi</h1>''"
proof -
  let ?s = "example_handler ''HTTP/0.9''\<lparr>requestline := ''GET /index.html''\<rparr>"
  let ?t = "?s\<lparr>log := [LogRequest 200], wfile := ''<h1>hi</h1>''\<rparr>"
  have tr: "translate_path (pct example_env) (directory ?s) (path ?s)
      = ''/srv/www/index.html''"
    using translate_index by (simp add: example_handler_def new_handler_def example_env_def)
  have "do_GET example_env ?s =
      Inr (?s\<lparr>log := log ?s @ [LogRequest 200],
              wfile := wfile ?s @ content \<lparr>content = ''<h1>hi</h1>'', st_mtime = 1793620800\<rparr>\<rparr>)"
    by (rule do_GET_file_http09; (unfold tr)?)
       (simp_all add: example_env_def example_handler_def endswith_def not_modified_def
         headers_get_def new_handler_def)
  then have g: "do_GET example_env ?s = Inr ?t"
    by (simp add: example_handler_def new_handler_def)
  have "handle example_env [request_of_line ''GET /index.html''] (new_handler example_env)
      = Inr ?t"
  proof (rule handle_one_GET [OF parse_index_09 _ _ _ g])
    show "command ?s = Some ''GET''"
      by (simp add: example_handler_def)
    show "close_connection ?t"
      by (simp add: example_handler_def new_handler_def)
  qed (simp_all add: request_of_line_def CRLF_def)
  then show ?thesis by simp
qed

subsection \<open>C4: errors of a request do not end the process\<close>








section \<open>The script: port, serving root, status lines\<close>

subsection \<open>A plain name under the serving root\<close>






subsection \<open>C7: the port and the serving root are fixed\<close>



subsection \<open>C8: two status lines\<close>






end
